theory Spec2Isabelle
  imports Complex_Main
begin

section \<open>The cache Lambda of the Prebid Server deployment (cache\_access.py)\<close>

text \<open>
  The only component with runtime logic is the Lambda behind \<open>/cache\<close>: a router
  (\<open>handler\<close>), a health check, a GET handler and a POST handler with its validation
  functions. They are embedded below function by function. What lies outside the
  repository is kept apart:
  \<^item> Python's \<open>json\<close> module, \<open>bytes.decode\<close> and the string form of a non-string value
    are parameters, bundled in the record \<open>pylib\<close>;
  \<^item> the Redis backend, the metrics client, \<open>uuid.uuid4\<close> and the clock are the
    environment, kept in the record \<open>world\<close> that every handler takes and returns.
  A raised exception is a value \<open>Inl e\<close>; effects that happened before the raise stay in
  the returned world. Logging is not modelled.
\<close>

subsection \<open>Python values\<close>

text \<open>
  A float is a finite value (every finite double is a rational number) or one of the
  three non-finite ones, which \<open>json.loads\<close> accepts as \<open>Infinity\<close>, \<open>-Infinity\<close>, \<open>NaN\<close>.
\<close>

datatype pyfloat = Finite rat | PosInf | NegInf | NaN

text \<open>
  What \<open>json.loads\<close> returns. A dict is the list of its items; a real dict has
  distinct keys, and lookup takes the first binding of a key. Strings are lists of
  8-bit characters (code points below 256).
\<close>

datatype json =
    JNull
  | JBool bool
  | JInt int
  | JFloat pyfloat
  | JStr string
  | JArr "json list"
  | JObj "(string \<times> json) list"

datatype exn =
    KeyError
  | TypeError
  | ValueError
  | AttributeError
  | OverflowError
  | JSONDecodeError
  | RecursionError
  | RedisError

type_synonym pydict = "(string \<times> json) list"

definition dict_get :: "pydict \<Rightarrow> string \<Rightarrow> json \<Rightarrow> json" where
  \<comment> \<open>\<open>d.get(k, default)\<close>\<close>
  "dict_get d k dflt = (case map_of d k of None \<Rightarrow> dflt | Some v \<Rightarrow> v)"

definition dict_has :: "pydict \<Rightarrow> string \<Rightarrow> bool" where
  \<comment> \<open>\<open>k in d\<close>\<close>
  "dict_has d k = (map_of d k \<noteq> None)"

definition dict_item :: "pydict \<Rightarrow> string \<Rightarrow> exn + json" where
  \<comment> \<open>\<open>d[k]\<close>\<close>
  "dict_item d k = (case map_of d k of None \<Rightarrow> Inl KeyError | Some v \<Rightarrow> Inr v)"

subsection \<open>The builtin \<open>int\<close>\<close>

text \<open>
  The characters \<open>int\<close> strips from both ends of a string: the six ASCII whitespace
  characters, and the two whitespace characters from 127 on (U+0085 and U+00A0), which
  \<open>int\<close> turns into blanks first. The separators U+001C to U+001F are not among them.
\<close>

definition py_isspace :: "char \<Rightarrow> bool" where
  "py_isspace c = ((of_char c :: nat) \<in> set [9, 10, 11, 12, 13, 32, 133, 160])"

definition py_strip :: "string \<Rightarrow> string" where
  "py_strip s = rev (dropWhile py_isspace (rev (dropWhile py_isspace s)))"

definition is_digit :: "char \<Rightarrow> bool" where
  "is_digit c = (48 \<le> (of_char c :: nat) \<and> (of_char c :: nat) \<le> 57)"

definition digit_val :: "char \<Rightarrow> int" where
  "digit_val c = int (of_char c) - 48"

text \<open>
  Decimal digits with single underscores between them; the flag says that the previous
  character was a digit.
\<close>

fun parse_digits :: "bool \<Rightarrow> int \<Rightarrow> string \<Rightarrow> int option" where
  "parse_digits prev acc [] = (if prev then Some acc else None)"
| "parse_digits prev acc (c # cs) =
     (if is_digit c then parse_digits True (10 * acc + digit_val c) cs
      else if c = CHR ''_'' \<and> prev then parse_digits False acc cs
      else None)"

definition MAX_STR_DIGITS :: nat where
  "MAX_STR_DIGITS = 4300"

definition py_int_str :: "string \<Rightarrow> int option" where
  \<comment> \<open>\<open>int(s)\<close> for a string, base 10; \<open>None\<close> is ValueError\<close>
  "py_int_str s =
     (case py_strip s of
        [] \<Rightarrow> None
      | c # cs \<Rightarrow>
          (let neg = (c = CHR ''-'');
               ds = (if c = CHR ''-'' \<or> c = CHR ''+'' then cs else c # cs)
           in if length (filter is_digit ds) > MAX_STR_DIGITS then None
              else map_option (\<lambda>n. if neg then - n else n) (parse_digits False 0 ds)))"

definition py_trunc :: "rat \<Rightarrow> int" where
  \<comment> \<open>truncation toward zero\<close>
  "py_trunc q = (if 0 \<le> q then \<lfloor>q\<rfloor> else \<lceil>q\<rceil>)"

fun py_int :: "json \<Rightarrow> exn + int" where
  "py_int JNull = Inl TypeError"
| "py_int (JBool b) = Inr (if b then 1 else 0)"
| "py_int (JInt n) = Inr n"
| "py_int (JFloat (Finite q)) = Inr (py_trunc q)"
| "py_int (JFloat PosInf) = Inl OverflowError"
| "py_int (JFloat NegInf) = Inl OverflowError"
| "py_int (JFloat NaN) = Inl ValueError"
| "py_int (JStr s) = (case py_int_str s of None \<Rightarrow> Inl ValueError | Some n \<Rightarrow> Inr n)"
| "py_int (JArr xs) = Inl TypeError"
| "py_int (JObj d) = Inl TypeError"

subsection \<open>Strings\<close>

definition lower_char :: "char \<Rightarrow> char" where
  "lower_char c =
     (let n = (of_char c :: nat)
      in if (65 \<le> n \<and> n \<le> 90) \<or> (192 \<le> n \<and> n \<le> 222 \<and> n \<noteq> 215)
         then char_of (n + 32) else c)"

definition py_lower :: "string \<Rightarrow> string" where
  "py_lower s = map lower_char s"

fun str_of_nat :: "nat \<Rightarrow> string" where
  "str_of_nat n =
     (if n < 10 then [''0123456789'' ! n]
      else str_of_nat (n div 10) @ [''0123456789'' ! (n mod 10)])"

declare str_of_nat.simps [simp del]

definition str_of_int :: "int \<Rightarrow> string" where
  \<comment> \<open>\<open>str(i)\<close>, as an f-string formats an int\<close>
  "str_of_int i = (if i < 0 then CHR ''-'' # str_of_nat (nat (- i)) else str_of_nat (nat i))"

subsection \<open>Library parameters\<close>

record pylib =
  json_loads :: "string \<Rightarrow> exn + json"
  json_dumps :: "json \<Rightarrow> string"
  utf8_decode :: "string \<Rightarrow> string option"  \<comment> \<open>\<open>None\<close>: UnicodeDecodeError\<close>
  py_str :: "json \<Rightarrow> string"                \<comment> \<open>\<open>str(v)\<close> of a value that is not a string\<close>

text \<open>
  \<open>json.loads\<close> returns the value or raises: JSONDecodeError for a text that is not JSON,
  and other exceptions for some texts that are (ValueError for an integer of more than
  4300 digits, RecursionError for deep nesting).
\<close>

definition format_value :: "pylib \<Rightarrow> json \<Rightarrow> string" where
  \<comment> \<open>\<open>f"{v}"\<close>\<close>
  "format_value L v = (case v of JStr s \<Rightarrow> s | _ \<Rightarrow> py_str L v)"

subsection \<open>The environment\<close>

datatype redis_reply = Text string | Bytes string

datatype redis_call =
    Ping
  | Get string
  | Setex string int string
  | Ttl string

text \<open>
  The backend is the Redis client of the connection pool, with its four commands.
  \<open>entries\<close> maps a key to its value and remaining lifetime. Every command is logged
  in \<open>calls\<close>; the command with number \<open>n\<close> (counted from 0) raises RedisError when
  \<open>fault n\<close> holds, and has no other effect then. The pool is created with
  \<open>decode_responses=True\<close>, so a reply is text; a \<open>bytes\<close> reply is kept in the model
  because the GET handler has a branch for it. \<open>uuid4\<close> hands out \<open>uuid_supply 0\<close>,
  \<open>uuid_supply 1\<close>, ...
\<close>

record world =
  entries :: "string \<rightharpoonup> redis_reply \<times> int"
  calls :: "redis_call list"
  fault :: "nat \<Rightarrow> bool"
  metrics :: "(string \<times> int) list"
  uuid_supply :: "nat \<Rightarrow> string"
  uuid_next :: nat
  now :: string

definition issue :: "redis_call \<Rightarrow> world \<Rightarrow> bool \<times> world" where
  \<comment> \<open>send a command: whether it fails, and the world with the command logged\<close>
  "issue c w = (fault w (length (calls w)), w\<lparr>calls := calls w @ [c]\<rparr>)"

definition redis_ping :: "world \<Rightarrow> (exn + unit) \<times> world" where
  "redis_ping w = (case issue Ping w of (failed, w') \<Rightarrow>
     if failed then (Inl RedisError, w') else (Inr (), w'))"

definition redis_get :: "string \<Rightarrow> world \<Rightarrow> (exn + redis_reply option) \<times> world" where
  "redis_get k w = (case issue (Get k) w of (failed, w') \<Rightarrow>
     if failed then (Inl RedisError, w') else (Inr (map_option fst (entries w' k)), w'))"

definition redis_ttl :: "string \<Rightarrow> world \<Rightarrow> (exn + int) \<times> world" where
  "redis_ttl k w = (case issue (Ttl k) w of (failed, w') \<Rightarrow>
     if failed then (Inl RedisError, w')
     else (Inr (case entries w' k of None \<Rightarrow> - 2 | Some (v, t) \<Rightarrow> t), w'))"

definition redis_setex :: "string \<Rightarrow> int \<Rightarrow> string \<Rightarrow> world \<Rightarrow> (exn + unit) \<times> world" where
  "redis_setex k t v w = (case issue (Setex k t v) w of (failed, w') \<Rightarrow>
     if failed then (Inl RedisError, w')
     else (Inr (), w'\<lparr>entries := (entries w')(k \<mapsto> (Text v, t))\<rparr>))"

text \<open>
  Modelled from the spec: the metrics client (module \<open>cloudwatch_metrics\<close>) is not among
  the sources. The spec has the handlers emit named counters to an external collector,
  best effort; here an emission appends the counter's name and value to \<open>metrics\<close> and
  never fails.
\<close>

definition put_metrics_count_value_custom :: "string \<Rightarrow> int \<Rightarrow> world \<Rightarrow> world" where
  "put_metrics_count_value_custom metric_name v w = w\<lparr>metrics := metrics w @ [(metric_name, v)]\<rparr>"

definition put_metrics_count_value_1 :: "string \<Rightarrow> world \<Rightarrow> world" where
  "put_metrics_count_value_1 metric_name w = put_metrics_count_value_custom metric_name 1 w"

definition uuid4 :: "world \<Rightarrow> string \<times> world" where
  "uuid4 w = (uuid_supply w (uuid_next w), w\<lparr>uuid_next := Suc (uuid_next w)\<rparr>)"

subsection \<open>Events and responses\<close>

datatype query_params = QAbsent | QNull | QMap "(string \<times> string) list"

text \<open>
  A field is \<open>None\<close> when the event lacks the key; for the body, also when it is null
  (\<open>event.get("body")\<close> does not tell the two apart).
\<close>

record event =
  path :: "string option"
  httpMethod :: "string option"
  queryStringParameters :: query_params
  req_body :: "string option"

record response =
  statusCode :: int
  headers :: "(string \<times> string) list option"
  body :: string

definition error_body :: "pylib \<Rightarrow> string \<Rightarrow> string" where
  \<comment> \<open>\<open>json.dumps({"error": msg})\<close>\<close>
  "error_body L msg = json_dumps L (JObj [(''error'', JStr msg)])"

definition error_response :: "pylib \<Rightarrow> int \<Rightarrow> string \<Rightarrow> response" where
  "error_response L code msg = \<lparr>statusCode = code, headers = None, body = error_body L msg\<rparr>"

subsection \<open>Constants\<close>

definition ALLOWED_TYPES :: "string list" where
  "ALLOWED_TYPES = [''xml'', ''json'']"

definition DEFAULT_TTL_SECONDS :: int where
  "DEFAULT_TTL_SECONDS = 300"

definition TTL_MAX_SECONDS :: int where
  "TTL_MAX_SECONDS = 3600"

subsection \<open>Validation of a POST body\<close>

definition validate_post_ttlseconds :: "json \<Rightarrow> exn + bool" where
  \<comment> \<open>only ValueError is caught\<close>
  "validate_post_ttlseconds ttlseconds =
     (case py_int ttlseconds of
        Inr ttl \<Rightarrow> if ttl \<le> 0 \<or> ttl > TTL_MAX_SECONDS then Inr False else Inr True
      | Inl e \<Rightarrow> if e = ValueError then Inr False else Inl e)"

definition in_allowed_types :: "json \<Rightarrow> exn + bool" where
  \<comment> \<open>\<open>v in ALLOWED_TYPES\<close>: membership in a set hashes \<open>v\<close>, and a list or a dict is
      unhashable\<close>
  "in_allowed_types v =
     (case v of
        JStr s \<Rightarrow> Inr (s \<in> set ALLOWED_TYPES)
      | JArr xs \<Rightarrow> Inl TypeError
      | JObj d \<Rightarrow> Inl TypeError
      | _ \<Rightarrow> Inr False)"

fun validate_post_puts :: "json list \<Rightarrow> exn + bool" where
  "validate_post_puts [] = Inr True"
| "validate_post_puts (item # rest) =
     (case item of
        JObj d \<Rightarrow>
          if \<not> dict_has d ''type'' \<or> \<not> dict_has d ''value'' then Inr False
          else (case in_allowed_types (dict_get d ''type'' JNull) of
                  Inl e \<Rightarrow> Inl e
                | Inr allowed \<Rightarrow>
                    if \<not> allowed then Inr False
                    else (case validate_post_ttlseconds (dict_get d ''ttlseconds'' (JInt 0)) of
                            Inl e \<Rightarrow> Inl e
                          | Inr ok \<Rightarrow> if \<not> ok then Inr False else validate_post_puts rest))
      | _ \<Rightarrow> Inr False)"

definition validate_post_body :: "json \<Rightarrow> exn + bool" where
  "validate_post_body request_data =
     (case request_data of
        JObj d \<Rightarrow>
          (case map_of d ''puts'' of
             None \<Rightarrow> Inr False
           | Some (JArr puts) \<Rightarrow>
               (case validate_post_puts puts of
                  Inl e \<Rightarrow> Inl e
                | Inr ok \<Rightarrow> if \<not> ok then Inr False else Inr True)
           | Some _ \<Rightarrow> Inr False)
      | _ \<Rightarrow> Inr False)"

subsection \<open>The health check\<close>

definition handle_health_check :: "pylib \<Rightarrow> world \<Rightarrow> (exn + response) \<times> world" where
  "handle_health_check L w =
     (case redis_ping w of
        (Inl e, w1) \<Rightarrow> (Inl e, w1)
      | (Inr u, w1) \<Rightarrow>
          (Inr \<lparr>statusCode = 200, headers = None,
                body = json_dumps L (JObj [(''status'', JStr ''healthy''),
                                           (''cache'', JStr ''connected''),
                                           (''timestamp'', JStr (now w1))])\<rparr>, w1))"

subsection \<open>The GET handler\<close>

definition query_uuid :: "event \<Rightarrow> exn + string option" where
  \<comment> \<open>\<open>event.get("queryStringParameters", {}).get("uuid")\<close>: the default replaces a
      missing key only, and \<open>None\<close> has no \<open>get\<close>\<close>
  "query_uuid ev =
     (case queryStringParameters ev of
        QAbsent \<Rightarrow> Inr None
      | QNull \<Rightarrow> Inl AttributeError
      | QMap q \<Rightarrow> Inr (map_of q ''uuid''))"

definition decode_reply :: "pylib \<Rightarrow> redis_reply \<Rightarrow> string option" where
  \<comment> \<open>only a \<open>bytes\<close> reply is decoded\<close>
  "decode_reply L r = (case r of Text s \<Rightarrow> Some s | Bytes b \<Rightarrow> utf8_decode L b)"

definition get_found :: "pylib \<Rightarrow> string \<Rightarrow> string \<Rightarrow> world \<Rightarrow> (exn + response) \<times> world" where
  \<comment> \<open>the inner \<open>try\<close> of the GET handler, on the decoded text: only JSONDecodeError is
      caught\<close>
  "get_found L key val w =
     (case json_loads L val of
        Inl e \<Rightarrow>
          if e = JSONDecodeError
          then (Inr (error_response L 500 ''Invalid cached value format''), w)
          else (Inl e, w)
      | Inr parsed_value \<Rightarrow>
          (case parsed_value of
             JObj d \<Rightarrow>
               if \<not> dict_has d ''type'' \<or> \<not> dict_has d ''value''
               then (Inr (error_response L 500 ''Invalid cached value structure''), w)
               else (case redis_ttl key w of
                       (Inl e, w1) \<Rightarrow> (Inl e, w1)
                     | (Inr remaining_ttl, w1) \<Rightarrow>
                         (Inr \<lparr>statusCode = 200,
                               headers = Some [(''Cache-Control'', ''max-age='' @ str_of_int remaining_ttl),
                                               (''Content-Type'',
                                                ''application/'' @ format_value L (dict_get d ''type'' JNull))],
                               body = json_dumps L (dict_get d ''value'' JNull)\<rparr>,
                          put_metrics_count_value_1 ''GetSuccess'' w1))
           | _ \<Rightarrow> (Inr (error_response L 500 ''Invalid cached value structure''), w)))"

definition get_lookup :: "pylib \<Rightarrow> string \<Rightarrow> world \<Rightarrow> (exn + response) \<times> world" where
  \<comment> \<open>the body of the outer \<open>try\<close> of the GET handler\<close>
  "get_lookup L key w =
     (case redis_get key w of
        (Inl e, w1) \<Rightarrow> (Inl e, w1)
      | (Inr None, w1) \<Rightarrow>
          (Inr (error_response L 404 ''Uuid not found''),
           put_metrics_count_value_1 ''GetNotFound'' w1)
      | (Inr (Some reply), w1) \<Rightarrow>
          (case decode_reply L reply of
             None \<Rightarrow> (Inr (error_response L 500 ''Invalid encoding in cached value''), w1)
           | Some val \<Rightarrow> get_found L key val w1))"

definition handle_get_request :: "pylib \<Rightarrow> event \<Rightarrow> world \<Rightarrow> (exn + response) \<times> world" where
  \<comment> \<open>the outer \<open>try\<close> catches RedisError only\<close>
  "handle_get_request L ev w =
     (case query_uuid ev of
        Inl e \<Rightarrow> (Inl e, w)
      | Inr None \<Rightarrow> (Inr (error_response L 400 ''Missing uuid parameter''), w)
      | Inr (Some key) \<Rightarrow>
          if key = [] then (Inr (error_response L 400 ''Missing uuid parameter''), w)
          else (case get_lookup L key w of
                  (Inl e, w1) \<Rightarrow>
                    if e = RedisError then (Inr (error_response L 500 ''Cache error''), w1)
                    else (Inl e, w1)
                | (Inr r, w1) \<Rightarrow> (Inr r, w1)))"

subsection \<open>The POST handler\<close>

definition resolve_ttl :: "json \<Rightarrow> exn + int" where
  \<comment> \<open>the first three lines of the storage loop; a value that is not a dict has no \<open>get\<close>\<close>
  "resolve_ttl item =
     (case item of
        JObj d \<Rightarrow>
          (case py_int (dict_get d ''ttlseconds'' (JInt DEFAULT_TTL_SECONDS)) of
             Inl e \<Rightarrow> Inl e
           | Inr ttlseconds \<Rightarrow>
               if ttlseconds \<le> 0 \<or> ttlseconds > TTL_MAX_SECONDS then Inr DEFAULT_TTL_SECONDS
               else Inr ttlseconds)
      | _ \<Rightarrow> Inl AttributeError)"

definition make_cache_value :: "json \<Rightarrow> exn + json" where
  \<comment> \<open>\<open>{"type": item["type"].lower(), "value": item["value"]}\<close>\<close>
  "make_cache_value item =
     (case item of
        JObj d \<Rightarrow>
          (case dict_item d ''type'' of
             Inl e \<Rightarrow> Inl e
           | Inr (JStr t) \<Rightarrow>
               (case dict_item d ''value'' of
                  Inl e \<Rightarrow> Inl e
                | Inr v \<Rightarrow> Inr (JObj [(''type'', JStr (py_lower t)), (''value'', v)]))
           | Inr _ \<Rightarrow> Inl AttributeError)
      | _ \<Rightarrow> Inl TypeError)"

text \<open>The loop over \<open>puts\<close>, with the list of responses built so far.\<close>

fun store_puts :: "pylib \<Rightarrow> json list \<Rightarrow> json list \<Rightarrow> world \<Rightarrow> (exn + json list) \<times> world" where
  "store_puts L [] responses w = (Inr responses, w)"
| "store_puts L (item # rest) responses w =
     (case resolve_ttl item of
        Inl e \<Rightarrow> (Inl e, w)
      | Inr ttlseconds \<Rightarrow>
          (case uuid4 w of (key, w1) \<Rightarrow>
             (case make_cache_value item of
                Inl e \<Rightarrow> (Inl e, w1)
              | Inr cache_value \<Rightarrow>
                  (case redis_setex key ttlseconds (json_dumps L cache_value) w1 of
                     (Inl e, w2) \<Rightarrow> (Inl e, w2)
                   | (Inr u, w2) \<Rightarrow>
                       store_puts L rest (responses @ [JObj [(''uuid'', JStr key)]]) w2))))"

definition request_puts :: "json \<Rightarrow> exn + json list" where
  \<comment> \<open>\<open>request_data["puts"]\<close>, then iterated and measured by \<open>len\<close>\<close>
  "request_puts request_data =
     (case request_data of
        JObj d \<Rightarrow>
          (case dict_item d ''puts'' of
             Inl e \<Rightarrow> Inl e
           | Inr (JArr puts) \<Rightarrow> Inr puts
           | Inr _ \<Rightarrow> Inl TypeError)
      | _ \<Rightarrow> Inl TypeError)"

definition store_batch :: "pylib \<Rightarrow> json \<Rightarrow> world \<Rightarrow> (exn + response) \<times> world" where
  \<comment> \<open>the \<open>try\<close> block of the POST handler: only RedisError is caught\<close>
  "store_batch L request_data w =
     (case request_puts request_data of
        Inl e \<Rightarrow> (Inl e, w)
      | Inr puts \<Rightarrow>
          (case store_puts L puts []
                  (put_metrics_count_value_custom ''PostCount'' (int (length puts)) w) of
             (Inr responses, w1) \<Rightarrow>
               (Inr \<lparr>statusCode = 200, headers = None,
                     body = json_dumps L (JObj [(''responses'', JArr responses)])\<rparr>,
                put_metrics_count_value_1 ''PostSuccess'' w1)
           | (Inl e, w1) \<Rightarrow>
               if e = RedisError
               then (Inr (error_response L 500 ''Cache error''),
                     put_metrics_count_value_1 ''PostFail'' w1)
               else (Inl e, w1)))"

definition handle_post_request :: "pylib \<Rightarrow> event \<Rightarrow> world \<Rightarrow> (exn + response) \<times> world" where
  "handle_post_request L ev w =
     (case req_body ev of
        None \<Rightarrow>
          (Inr (error_response L 400 ''Missing request body''),
           put_metrics_count_value_1 ''PostFail'' w)
      | Some b \<Rightarrow>
          if b = []
          then (Inr (error_response L 400 ''Missing request body''),
                put_metrics_count_value_1 ''PostFail'' w)
          else (case json_loads L b of
                  Inl e \<Rightarrow> (Inl e, w)
                | Inr request_data \<Rightarrow>
                    (case validate_post_body request_data of
                       Inl e \<Rightarrow> (Inl e, w)
                     | Inr ok \<Rightarrow>
                         if \<not> ok
                         then (Inr (error_response L 400 ''Invalid request body''),
                               put_metrics_count_value_1 ''PostFail'' w)
                         else store_batch L request_data w)))"

subsection \<open>The router\<close>

definition route :: "pylib \<Rightarrow> event \<Rightarrow> world \<Rightarrow> (exn + response) \<times> world" where
  \<comment> \<open>the \<open>try\<close> block of \<open>handler\<close>\<close>
  "route L ev w =
     (case path ev of
        None \<Rightarrow> (Inl KeyError, w)
      | Some p \<Rightarrow>
          if p = ''/cache/health'' then handle_health_check L w
          else if p \<noteq> ''/cache'' then (Inr (error_response L 404 ''Not found''), w)
          else (case httpMethod ev of
                  None \<Rightarrow> (Inl KeyError, w)
                | Some http_method \<Rightarrow>
                    if http_method = ''GET'' then handle_get_request L ev w
                    else if http_method = ''POST'' then handle_post_request L ev w
                    else (Inr (error_response L 405 ''Method not allowed''), w)))"

definition catch_all :: "pylib \<Rightarrow> (exn + response) \<times> world \<Rightarrow> response \<times> world" where
  \<comment> \<open>\<open>except Exception\<close>: every exception of the model is one\<close>
  "catch_all L r =
     (case r of
        (Inl e, w) \<Rightarrow> (error_response L 500 ''Internal server error'', w)
      | (Inr resp, w) \<Rightarrow> (resp, w))"

definition handler :: "pylib \<Rightarrow> event \<Rightarrow> world \<Rightarrow> response \<times> world" where
  "handler L ev w = catch_all L (route L ev w)"

section \<open>Notions used in the statements\<close>

text \<open>An item of \<open>puts\<close> that validation accepts.\<close>

definition item_ok :: "json \<Rightarrow> bool" where
  "item_ok item = (validate_post_puts [item] = Inr True)"

text \<open>
  The key that \<open>uuid4\<close> gives to the \<open>j\<close>-th item of a batch whose storage starts in
  the world \<open>w\<close>.
\<close>

definition nth_key :: "world \<Rightarrow> nat \<Rightarrow> string" where
  "nth_key w j = uuid_supply w (uuid_next w + j)"

text \<open>
  The effective TTL in the words of the spec: the supplied \<open>ttlseconds\<close> when it is present
  and an integer in \<open>(0, 3600]\<close>, and the default of 300 seconds otherwise. It is compared
  with what the storage loop does; no handler uses it.
\<close>

definition spec_effective_ttl :: "json option \<Rightarrow> int" where
  "spec_effective_ttl supplied =
     (case supplied of
        Some (JInt n) \<Rightarrow> if 0 < n \<and> n \<le> 3600 then n else 300
      | _ \<Rightarrow> 300)"

subsection \<open>A concrete library and world\<close>

text \<open>
  For runs on concrete requests the library parameters are instantiated with a table:
  the JSON texts used below, each with the value \<open>json.loads\<close> returns for it, in the
  layout \<open>json.dumps\<close> produces. For a text outside the table \<open>json.loads\<close> raises
  JSONDecodeError; the only such text used below is \<open>invalid json\<close>, which is not JSON.
\<close>

definition example_texts :: "(string \<times> json) list" where
  \<open>example_texts =
    [(''{"puts": [{"type": "json", "value": {"a": 1}, "ttlseconds": 60}]}'',
      JObj [(''puts'', JArr [JObj [(''type'', JStr ''json''), (''value'', JObj [(''a'', JInt 1)]),
                                   (''ttlseconds'', JInt 60)]])]),
     (''{"puts": [{"type": "json", "value": {"a": 1}}]}'',
      JObj [(''puts'', JArr [JObj [(''type'', JStr ''json''), (''value'', JObj [(''a'', JInt 1)])]])]),
     (''{"puts": [{"type": "json", "value": {"a": 1}, "ttlseconds": 1.5}]}'',
      JObj [(''puts'', JArr [JObj [(''type'', JStr ''json''), (''value'', JObj [(''a'', JInt 1)]),
                                   (''ttlseconds'', JFloat (Finite (3 / 2)))]])]),
     (''{"puts": [{"type": [], "value": 1}]}'',
      JObj [(''puts'', JArr [JObj [(''type'', JArr []), (''value'', JInt 1)]])]),
     (''{"puts": [{"type": "json", "value": 1, "ttlseconds": null}, {"type": "csv", "value": 1}]}'',
      JObj [(''puts'', JArr [JObj [(''type'', JStr ''json''), (''value'', JInt 1),
                                   (''ttlseconds'', JNull)],
                             JObj [(''type'', JStr ''csv''), (''value'', JInt 1)]])]),
     (''{"puts": [{"type": "xml", "value": "<a/>", "ttlseconds": 60}, {"type": "json", "value": 1, "ttlseconds": 120}]}'',
      JObj [(''puts'', JArr [JObj [(''type'', JStr ''xml''), (''value'', JStr ''<a/>''),
                                   (''ttlseconds'', JInt 60)],
                             JObj [(''type'', JStr ''json''), (''value'', JInt 1),
                                   (''ttlseconds'', JInt 120)]])]),
     (''{"type": "json", "value": {"a": 1}}'',
      JObj [(''type'', JStr ''json''), (''value'', JObj [(''a'', JInt 1)])]),
     (''{"type": "xml", "value": "<a/>"}'',
      JObj [(''type'', JStr ''xml''), (''value'', JStr ''<a/>'')]),
     (''{"type": "json", "value": 1}'',
      JObj [(''type'', JStr ''json''), (''value'', JInt 1)]),
     (''{"type": "json"}'', JObj [(''type'', JStr ''json'')]),
     (''{"puts": [{"type": "csv", "value": 1, "ttlseconds": null}]}'',
      JObj [(''puts'', JArr [JObj [(''type'', JStr ''csv''), (''value'', JInt 1),
                                   (''ttlseconds'', JNull)]])]),
     (''{"a": 1}'', JObj [(''a'', JInt 1)]),
     (''{"responses": [{"uuid": "00000000-0000-4000-8000-000000000000"}]}'',
      JObj [(''responses'', JArr [JObj [(''uuid'', JStr ''00000000-0000-4000-8000-000000000000'')]])]),
     (''{"error": "Not found"}'', JObj [(''error'', JStr ''Not found'')]),
     (''{"error": "Method not allowed"}'', JObj [(''error'', JStr ''Method not allowed'')]),
     (''{"error": "Internal server error"}'', JObj [(''error'', JStr ''Internal server error'')]),
     (''{"error": "Missing uuid parameter"}'', JObj [(''error'', JStr ''Missing uuid parameter'')]),
     (''{"error": "Uuid not found"}'', JObj [(''error'', JStr ''Uuid not found'')]),
     (''{"error": "Invalid cached value structure"}'',
      JObj [(''error'', JStr ''Invalid cached value structure'')]),
     (''{"error": "Invalid cached value format"}'',
      JObj [(''error'', JStr ''Invalid cached value format'')]),
     (''{"error": "Cache error"}'', JObj [(''error'', JStr ''Cache error'')]),
     (''{"error": "Missing request body"}'', JObj [(''error'', JStr ''Missing request body'')]),
     (''{"error": "Invalid request body"}'', JObj [(''error'', JStr ''Invalid request body'')]),
     (''{"status": "healthy", "cache": "connected", "timestamp": "2024-01-01 00:00:00 UTC"}'',
      JObj [(''status'', JStr ''healthy''), (''cache'', JStr ''connected''),
            (''timestamp'', JStr ''2024-01-01 00:00:00 UTC'')])]\<close>

definition example_dumps :: "json \<Rightarrow> string" where
  "example_dumps v =
     (case find (\<lambda>p. snd p = v) example_texts of Some p \<Rightarrow> fst p | None \<Rightarrow> [])"

definition example_lib :: pylib where
  "example_lib =
     \<lparr>json_loads = (\<lambda>s. case map_of example_texts s of
                              None \<Rightarrow> Inl JSONDecodeError | Some v \<Rightarrow> Inr v),
      json_dumps = example_dumps,
      utf8_decode = (\<lambda>b. None), py_str = (\<lambda>v. [])\<rparr>"

text \<open>An empty backend without faults, and keys shaped like version-4 UUIDs.\<close>

definition example_world :: world where
  "example_world =
     \<lparr>entries = Map.empty, calls = [], fault = (\<lambda>n. False), metrics = [],
      uuid_supply = (\<lambda>n. ''00000000-0000-4000-8000-00000000000'' @ str_of_nat n),
      uuid_next = 0, now = ''2024-01-01 00:00:00 UTC''\<rparr>"

definition post_event :: "string \<Rightarrow> event" where
  "post_event b =
     \<lparr>path = Some ''/cache'', httpMethod = Some ''POST'', queryStringParameters = QNull,
      req_body = Some b\<rparr>"

definition get_event :: "query_params \<Rightarrow> event" where
  "get_event q =
     \<lparr>path = Some ''/cache'', httpMethod = Some ''GET'', queryStringParameters = q,
      req_body = None\<rparr>"

section \<open>Evaluation\<close>

lemma floor_rat_numeral_quotient [simp]:
  "\<lfloor>numeral a / numeral b :: rat\<rfloor> = numeral a div numeral b"
  by (metis floor_divide_of_int_eq of_int_numeral)

lemmas model_defs =
  handler_def route_def catch_all_def handle_post_request_def handle_get_request_def
  handle_health_check_def store_batch_def request_puts_def validate_post_body_def
  validate_post_ttlseconds_def in_allowed_types_def resolve_ttl_def make_cache_value_def
  query_uuid_def decode_reply_def get_found_def get_lookup_def format_value_def
  redis_ping_def redis_get_def redis_ttl_def redis_setex_def issue_def uuid4_def
  put_metrics_count_value_1_def put_metrics_count_value_custom_def
  error_response_def error_body_def dict_get_def dict_has_def dict_item_def
  ALLOWED_TYPES_def DEFAULT_TTL_SECONDS_def TTL_MAX_SECONDS_def
  py_lower_def lower_char_def py_trunc_def str_of_int_def str_of_nat.simps nth_key_def

lemmas example_defs =
  example_lib_def example_world_def example_dumps_def example_texts_def post_event_def
  get_event_def

section \<open>Validation\<close>

lemma validate_post_puts_Cons_True:
  "validate_post_puts (item # rest) = Inr True \<longleftrightarrow>
     validate_post_puts [item] = Inr True \<and> validate_post_puts rest = Inr True"
  by (auto split: json.splits sum.splits if_splits)

lemma validate_post_puts_all:
  "validate_post_puts puts = Inr True \<longleftrightarrow> (\<forall>item \<in> set puts. item_ok item)"
proof (induction puts)
  case Nil
  show ?case by simp
next
  case (Cons item rest)
  show ?case
    unfolding validate_post_puts_Cons_True [of item rest] Cons.IH item_ok_def by simp
qed

lemma validate_post_puts_append:
  assumes "validate_post_puts pre = Inr True"
  shows "validate_post_puts (pre @ rest) = validate_post_puts rest"
  using assms
  by (induction pre) (auto split: json.splits sum.splits if_splits)

lemma validate_post_ttlseconds_True:
  "validate_post_ttlseconds v = Inr True \<longleftrightarrow>
     (\<exists>n. py_int v = Inr n \<and> 0 < n \<and> n \<le> 3600)"
  by (auto simp: validate_post_ttlseconds_def TTL_MAX_SECONDS_def split: sum.splits if_splits)

lemma validate_post_ttlseconds_TypeError:
  "py_int x = Inl TypeError \<Longrightarrow> validate_post_ttlseconds x = Inl TypeError"
  by (simp add: validate_post_ttlseconds_def)

lemma py_int_TypeError:
  "py_int x = Inl TypeError \<longleftrightarrow> x = JNull \<or> (\<exists>xs. x = JArr xs) \<or> (\<exists>d. x = JObj d)"
proof (cases x)
  case (JFloat f)
  then show ?thesis by (cases f) simp_all
qed (auto split: option.splits)

lemma in_allowed_types_True:
  "in_allowed_types v = Inr True \<longleftrightarrow> v = JStr ''xml'' \<or> v = JStr ''json''"
  by (auto simp: in_allowed_types_def ALLOWED_TYPES_def split: json.splits)

lemma item_okD:
  assumes "item_ok item"
  obtains d t v x n where "item = JObj d" "map_of d ''type'' = Some (JStr t)"
    "t = ''xml'' \<or> t = ''json''" "map_of d ''value'' = Some v"
    "map_of d ''ttlseconds'' = Some x" "py_int x = Inr n" "0 < n" "n \<le> 3600"
proof -
  from assms obtain d where d: "item = JObj d"
    by (cases item) (auto simp: item_ok_def)
  from assms d have has: "dict_has d ''type''" "dict_has d ''value''"
    and al: "in_allowed_types (dict_get d ''type'' JNull) = Inr True"
    and ttl: "validate_post_ttlseconds (dict_get d ''ttlseconds'' (JInt 0)) = Inr True"
    by (auto simp: item_ok_def split: sum.splits if_splits)
  from has obtain tv v where tv: "map_of d ''type'' = Some tv" and v: "map_of d ''value'' = Some v"
    by (auto simp: dict_has_def)
  from al tv obtain t where t: "tv = JStr t" "t = ''xml'' \<or> t = ''json''"
    by (auto simp: in_allowed_types_True dict_get_def)
  from ttl obtain n where n: "py_int (dict_get d ''ttlseconds'' (JInt 0)) = Inr n" "0 < n" "n \<le> 3600"
    by (auto simp: validate_post_ttlseconds_True)
  from n obtain x where x: "map_of d ''ttlseconds'' = Some x"
    by (cases "map_of d ''ttlseconds''") (auto simp: dict_get_def)
  with n have px: "py_int x = Inr n" by (simp add: dict_get_def)
  from tv t have ty: "map_of d ''type'' = Some (JStr t)" by simp
  show thesis by (rule that [OF d ty t(2) v x px n(2) n(3)])
qed

lemma py_lower_allowed: "py_lower ''xml'' = ''xml''" "py_lower ''json'' = ''json''"
  by (simp_all add: py_lower_def lower_char_def)

lemma item_ok_resolve_ttl:
  assumes "item_ok item"
  shows "\<exists>d x n. item = JObj d \<and> map_of d ''ttlseconds'' = Some x \<and> py_int x = Inr n \<and>
           0 < n \<and> n \<le> 3600 \<and> resolve_ttl item = Inr n"
proof -
  from assms obtain d t v x n where *: "item = JObj d" "map_of d ''ttlseconds'' = Some x"
      "py_int x = Inr n" "0 < n" "n \<le> 3600"
    by (rule item_okD)
  then have "resolve_ttl item = Inr n"
    by (simp add: resolve_ttl_def dict_get_def TTL_MAX_SECONDS_def)
  with * show ?thesis by blast
qed

lemma item_ok_make_cache_value:
  assumes "item_ok item"
  shows "\<exists>d t v. item = JObj d \<and> map_of d ''type'' = Some (JStr t) \<and> (t = ''xml'' \<or> t = ''json'') \<and>
           map_of d ''value'' = Some v \<and>
           make_cache_value item = Inr (JObj [(''type'', JStr t), (''value'', v)])"
proof -
  from assms obtain d t v x n where *: "item = JObj d" "map_of d ''type'' = Some (JStr t)"
    "t = ''xml'' \<or> t = ''json''" "map_of d ''value'' = Some v"
    by (rule item_okD)
  then have "make_cache_value item = Inr (JObj [(''type'', JStr t), (''value'', v)])"
    by (auto simp: make_cache_value_def dict_item_def py_lower_allowed)
  with * show ?thesis by blast
qed

lemma validate_post_body_True:
  assumes "validate_post_body data = Inr True"
  shows "\<exists>puts. request_puts data = Inr puts \<and> validate_post_puts puts = Inr True"
  using assms
  by (auto simp: validate_post_body_def request_puts_def dict_item_def
           split: json.splits option.splits sum.splits if_splits)

lemma validate_post_body_puts:
  assumes "request_puts data = Inr puts"
  shows "validate_post_body data =
           (case validate_post_puts puts of Inl e \<Rightarrow> Inl e | Inr ok \<Rightarrow> Inr ok)"
  using assms
  by (auto simp: validate_post_body_def request_puts_def dict_item_def
           split: json.splits option.splits sum.splits if_splits)

text \<open>
  Where validation returns \<open>False\<close>: a body that is not an object, that has no \<open>puts\<close> or
  whose \<open>puts\<close> is not a list, and, after items that pass, an item that is not an object,
  that lacks \<open>type\<close> or \<open>value\<close>, or whose \<open>type\<close> is a string outside the allowed set.
\<close>

lemma validate_post_body_shape:
  "(\<forall>d. data \<noteq> JObj d) \<Longrightarrow> validate_post_body data = Inr False"
  "map_of d ''puts'' = None \<Longrightarrow> validate_post_body (JObj d) = Inr False"
  "map_of d ''puts'' = Some v \<Longrightarrow> (\<forall>puts. v \<noteq> JArr puts) \<Longrightarrow> validate_post_body (JObj d) = Inr False"
  by (auto simp: validate_post_body_def split: json.splits option.splits)

lemma validate_post_puts_rejects:
  assumes "validate_post_puts pre = Inr True"
  shows "(\<forall>d. item \<noteq> JObj d) \<Longrightarrow> validate_post_puts (pre @ item # post) = Inr False"
    and "\<not> dict_has d ''type'' \<or> \<not> dict_has d ''value'' \<Longrightarrow>
           validate_post_puts (pre @ JObj d # post) = Inr False"
    and "dict_has d ''value'' \<Longrightarrow> map_of d ''type'' = Some (JStr t) \<Longrightarrow> t \<notin> set ALLOWED_TYPES \<Longrightarrow>
           validate_post_puts (pre @ JObj d # post) = Inr False"
  unfolding validate_post_puts_append [OF assms]
  by (auto simp: dict_has_def dict_get_def in_allowed_types_def split: json.splits)

section \<open>The storage loop\<close>

lemma store_puts_Cons_item_ok:
  assumes "item_ok item"
  shows "\<exists>t cv. resolve_ttl item = Inr t \<and> make_cache_value item = Inr cv \<and>
     store_puts L (item # rest) acc w =
       (if fault w (length (calls w))
        then (Inl RedisError,
              w\<lparr>uuid_next := Suc (uuid_next w),
                calls := calls w @ [Setex (nth_key w 0) t (json_dumps L cv)]\<rparr>)
        else store_puts L rest (acc @ [JObj [(''uuid'', JStr (nth_key w 0))]])
              (w\<lparr>uuid_next := Suc (uuid_next w),
                 calls := calls w @ [Setex (nth_key w 0) t (json_dumps L cv)],
                 entries := (entries w)(nth_key w 0 \<mapsto> (Text (json_dumps L cv), t))\<rparr>))"
proof -
  from item_ok_resolve_ttl [OF assms] obtain t where t: "resolve_ttl item = Inr t" by blast
  from item_ok_make_cache_value [OF assms] obtain cv where cv: "make_cache_value item = Inr cv"
    by blast
  show ?thesis
    using t cv by (simp add: uuid4_def redis_setex_def issue_def nth_key_def)
qed

lemma store_puts_fault:
  assumes "\<forall>item \<in> set puts. item_ok item" and "i < length puts"
    and "\<forall>j<i. \<not> fault w (length (calls w) + j)"
    and "fault w (length (calls w) + i)"
    and "\<forall>j<i. \<forall>j'<i. j \<noteq> j' \<longrightarrow> nth_key w j \<noteq> nth_key w j'"
  shows "\<exists>w'. store_puts L puts acc w = (Inl RedisError, w') \<and> metrics w' = metrics w \<and>
           (\<forall>k. (\<forall>j<i. nth_key w j \<noteq> k) \<longrightarrow> entries w' k = entries w k) \<and>
           (\<forall>j<i. \<exists>t cv. resolve_ttl (puts ! j) = Inr t \<and> make_cache_value (puts ! j) = Inr cv \<and>
                     entries w' (nth_key w j) = Some (Text (json_dumps L cv), t))"
  using assms
proof (induction puts arbitrary: i w acc)
  case Nil
  then show ?case by simp
next
  case (Cons item rest)
  from Cons.prems(1) have ok: "item_ok item" and oks: "\<forall>item \<in> set rest. item_ok item"
    by simp_all
  from store_puts_Cons_item_ok [OF ok, of L rest acc w] obtain t cv
    where t: "resolve_ttl item = Inr t" and cv: "make_cache_value item = Inr cv"
      and step: "store_puts L (item # rest) acc w =
       (if fault w (length (calls w))
        then (Inl RedisError,
              w\<lparr>uuid_next := Suc (uuid_next w),
                calls := calls w @ [Setex (nth_key w 0) t (json_dumps L cv)]\<rparr>)
        else store_puts L rest (acc @ [JObj [(''uuid'', JStr (nth_key w 0))]])
              (w\<lparr>uuid_next := Suc (uuid_next w),
                 calls := calls w @ [Setex (nth_key w 0) t (json_dumps L cv)],
                 entries := (entries w)(nth_key w 0 \<mapsto> (Text (json_dumps L cv), t))\<rparr>))"
    by blast
  show ?case
  proof (cases i)
    case 0
    with Cons.prems(4) have "fault w (length (calls w))" by simp
    with step 0 show ?thesis by simp
  next
    case (Suc i')
    define w2 where "w2 = w\<lparr>uuid_next := Suc (uuid_next w),
                 calls := calls w @ [Setex (nth_key w 0) t (json_dumps L cv)],
                 entries := (entries w)(nth_key w 0 \<mapsto> (Text (json_dumps L cv), t))\<rparr>"
    have key2: "nth_key w2 j = nth_key w (Suc j)" for j
      by (simp add: w2_def nth_key_def)
    have nof: "\<not> fault w (length (calls w))"
      using Cons.prems(3) Suc by force
    have step2: "store_puts L (item # rest) acc w =
        store_puts L rest (acc @ [JObj [(''uuid'', JStr (nth_key w 0))]]) w2"
      using step nof by (simp add: w2_def)
    have p2: "i' < length rest" using Cons.prems(2) Suc by simp
    have p3: "\<forall>j<i'. \<not> fault w2 (length (calls w2) + j)"
      using Cons.prems(3) Suc by (auto simp: w2_def)
    have p4: "fault w2 (length (calls w2) + i')"
      using Cons.prems(4) Suc by (simp add: w2_def)
    have p5: "\<forall>j<i'. \<forall>j'<i'. j \<noteq> j' \<longrightarrow> nth_key w2 j \<noteq> nth_key w2 j'"
      using Cons.prems(5) Suc by (simp add: key2)
    from Cons.IH [OF oks p2 p3 p4 p5, of "acc @ [JObj [(''uuid'', JStr (nth_key w 0))]]"]
    obtain w' where run: "store_puts L rest (acc @ [JObj [(''uuid'', JStr (nth_key w 0))]]) w2
          = (Inl RedisError, w')"
      and m: "metrics w' = metrics w2"
      and frame: "\<forall>k. (\<forall>j<i'. nth_key w2 j \<noteq> k) \<longrightarrow> entries w' k = entries w2 k"
      and stored: "\<forall>j<i'. \<exists>t cv. resolve_ttl (rest ! j) = Inr t \<and>
          make_cache_value (rest ! j) = Inr cv \<and>
          entries w' (nth_key w2 j) = Some (Text (json_dumps L cv), t)"
      by blast
    have first_distinct: "\<forall>j<i'. nth_key w2 j \<noteq> nth_key w 0"
      using Cons.prems(5) Suc by (auto simp: key2)
    have e0: "entries w' (nth_key w 0) = Some (Text (json_dumps L cv), t)"
      using frame first_distinct by (simp add: w2_def)
    have c1: "metrics w' = metrics w" using m by (simp add: w2_def)
    have c2: "\<forall>k. (\<forall>j<i. nth_key w j \<noteq> k) \<longrightarrow> entries w' k = entries w k"
    proof (intro allI impI)
      fix k assume k: "\<forall>j<i. nth_key w j \<noteq> k"
      then have "\<forall>j<i'. nth_key w2 j \<noteq> k" using Suc by (auto simp: key2)
      with frame have "entries w' k = entries w2 k" by simp
      moreover from k Suc have "nth_key w 0 \<noteq> k" by auto
      ultimately show "entries w' k = entries w k" by (simp add: w2_def)
    qed
    have c3: "\<forall>j<i. \<exists>t cv. resolve_ttl ((item # rest) ! j) = Inr t \<and>
          make_cache_value ((item # rest) ! j) = Inr cv \<and>
          entries w' (nth_key w j) = Some (Text (json_dumps L cv), t)"
    proof (intro allI impI)
      fix j assume j: "j < i"
      show "\<exists>t cv. resolve_ttl ((item # rest) ! j) = Inr t \<and>
          make_cache_value ((item # rest) ! j) = Inr cv \<and>
          entries w' (nth_key w j) = Some (Text (json_dumps L cv), t)"
      proof (cases j)
        case 0
        with t cv e0 show ?thesis by simp
      next
        case (Suc j')
        with j \<open>i = Suc i'\<close> have "j' < i'" by simp
        with stored Suc show ?thesis by (simp add: key2)
      qed
    qed
    from step2 run c1 c2 c3 show ?thesis by simp
  qed
qed

lemma store_puts_success:
  assumes "\<forall>item \<in> set puts. item_ok item"
    and "\<forall>j<length puts. \<not> fault w (length (calls w) + j)"
  shows "\<exists>w' cs. store_puts L puts acc w =
             (Inr (acc @ map (\<lambda>j. JObj [(''uuid'', JStr (nth_key w j))]) [0..<length puts]), w') \<and>
           metrics w' = metrics w \<and> calls w' = calls w @ cs \<and> length cs = length puts \<and>
           (\<forall>j<length puts. \<exists>t cv. resolve_ttl (puts ! j) = Inr t \<and>
                     make_cache_value (puts ! j) = Inr cv \<and>
                     cs ! j = Setex (nth_key w j) t (json_dumps L cv))"
  using assms
proof (induction puts arbitrary: w acc)
  case Nil
  then show ?case by simp
next
  case (Cons item rest)
  from Cons.prems(1) have ok: "item_ok item" and oks: "\<forall>item \<in> set rest. item_ok item"
    by simp_all
  from store_puts_Cons_item_ok [OF ok, of L rest acc w] obtain t cv
    where t: "resolve_ttl item = Inr t" and cv: "make_cache_value item = Inr cv"
      and step: "store_puts L (item # rest) acc w =
       (if fault w (length (calls w))
        then (Inl RedisError,
              w\<lparr>uuid_next := Suc (uuid_next w),
                calls := calls w @ [Setex (nth_key w 0) t (json_dumps L cv)]\<rparr>)
        else store_puts L rest (acc @ [JObj [(''uuid'', JStr (nth_key w 0))]])
              (w\<lparr>uuid_next := Suc (uuid_next w),
                 calls := calls w @ [Setex (nth_key w 0) t (json_dumps L cv)],
                 entries := (entries w)(nth_key w 0 \<mapsto> (Text (json_dumps L cv), t))\<rparr>))"
    by blast
  define w2 where "w2 = w\<lparr>uuid_next := Suc (uuid_next w),
                 calls := calls w @ [Setex (nth_key w 0) t (json_dumps L cv)],
                 entries := (entries w)(nth_key w 0 \<mapsto> (Text (json_dumps L cv), t))\<rparr>"
  have key2: "nth_key w2 j = nth_key w (Suc j)" for j
    by (simp add: w2_def nth_key_def)
  have nof: "\<not> fault w (length (calls w))"
    using Cons.prems(2) by force
  have step2: "store_puts L (item # rest) acc w =
        store_puts L rest (acc @ [JObj [(''uuid'', JStr (nth_key w 0))]]) w2"
    using step nof by (simp add: w2_def)
  have p2: "\<forall>j<length rest. \<not> fault w2 (length (calls w2) + j)"
    using Cons.prems(2) by (auto simp: w2_def)
  from Cons.IH [OF oks p2, of "acc @ [JObj [(''uuid'', JStr (nth_key w 0))]]"]
  obtain w' cs where run: "store_puts L rest (acc @ [JObj [(''uuid'', JStr (nth_key w 0))]]) w2 =
        (Inr ((acc @ [JObj [(''uuid'', JStr (nth_key w 0))]]) @
              map (\<lambda>j. JObj [(''uuid'', JStr (nth_key w2 j))]) [0..<length rest]), w')"
    and m: "metrics w' = metrics w2" and c: "calls w' = calls w2 @ cs"
    and l: "length cs = length rest"
    and each: "\<forall>j<length rest. \<exists>t cv. resolve_ttl (rest ! j) = Inr t \<and>
                     make_cache_value (rest ! j) = Inr cv \<and>
                     cs ! j = Setex (nth_key w2 j) t (json_dumps L cv)"
    by blast
  let ?c0 = "Setex (nth_key w 0) t (json_dumps L cv)"
  have resp: "(acc @ [JObj [(''uuid'', JStr (nth_key w 0))]]) @
              map (\<lambda>j. JObj [(''uuid'', JStr (nth_key w2 j))]) [0..<length rest] =
        acc @ map (\<lambda>j. JObj [(''uuid'', JStr (nth_key w j))]) [0..<length (item # rest)]"
  proof -
    have "[0..<length (item # rest)] = 0 # map Suc [0..<length rest]"
      by (simp add: upt_conv_Cons map_Suc_upt del: upt_Suc)
    then show ?thesis by (simp add: key2 comp_def)
  qed
  have c1: "calls w' = calls w @ (?c0 # cs)" using c by (simp add: w2_def)
  have c2: "\<forall>j<length (item # rest). \<exists>t cv. resolve_ttl ((item # rest) ! j) = Inr t \<and>
                     make_cache_value ((item # rest) ! j) = Inr cv \<and>
                     (?c0 # cs) ! j = Setex (nth_key w j) t (json_dumps L cv)"
  proof (intro allI impI)
    fix j assume j: "j < length (item # rest)"
    show "\<exists>t cv. resolve_ttl ((item # rest) ! j) = Inr t \<and>
                     make_cache_value ((item # rest) ! j) = Inr cv \<and>
                     (?c0 # cs) ! j = Setex (nth_key w j) t (json_dumps L cv)"
    proof (cases j)
      case 0
      with t cv show ?thesis by simp
    next
      case (Suc j')
      with j have "j' < length rest" by simp
      with each Suc show ?thesis by (simp add: key2)
    qed
  qed
  have "store_puts L (item # rest) acc w =
             (Inr (acc @ map (\<lambda>j. JObj [(''uuid'', JStr (nth_key w j))]) [0..<length (item # rest)]), w')"
    using step2 run resp by simp
  moreover have "metrics w' = metrics w" using m by (simp add: w2_def)
  moreover have "length (?c0 # cs) = length (item # rest)" using l by simp
  ultimately show ?case using c1 c2 by blast
qed

text \<open>
  Whatever the backend does, the commands of the loop are the \<open>setex\<close> of the items in
  order, as far as the loop gets.
\<close>

lemma store_puts_calls:
  assumes "\<forall>item \<in> set puts. item_ok item"
  shows "\<exists>cs. calls (snd (store_puts L puts acc w)) = calls w @ cs \<and> length cs \<le> length puts \<and>
           (\<forall>j<length cs. \<exists>t cv. resolve_ttl (puts ! j) = Inr t \<and>
                     make_cache_value (puts ! j) = Inr cv \<and>
                     cs ! j = Setex (nth_key w j) t (json_dumps L cv))"
  using assms
proof (induction puts arbitrary: w acc)
  case Nil
  then show ?case by simp
next
  case (Cons item rest)
  from Cons.prems have ok: "item_ok item" and oks: "\<forall>item \<in> set rest. item_ok item"
    by simp_all
  from store_puts_Cons_item_ok [OF ok, of L rest acc w] obtain t cv
    where t: "resolve_ttl item = Inr t" and cv: "make_cache_value item = Inr cv"
      and step: "store_puts L (item # rest) acc w =
       (if fault w (length (calls w))
        then (Inl RedisError,
              w\<lparr>uuid_next := Suc (uuid_next w),
                calls := calls w @ [Setex (nth_key w 0) t (json_dumps L cv)]\<rparr>)
        else store_puts L rest (acc @ [JObj [(''uuid'', JStr (nth_key w 0))]])
              (w\<lparr>uuid_next := Suc (uuid_next w),
                 calls := calls w @ [Setex (nth_key w 0) t (json_dumps L cv)],
                 entries := (entries w)(nth_key w 0 \<mapsto> (Text (json_dumps L cv), t))\<rparr>))"
    by blast
  let ?c0 = "Setex (nth_key w 0) t (json_dumps L cv)"
  show ?case
  proof (cases "fault w (length (calls w))")
    case True
    with step have "calls (snd (store_puts L (item # rest) acc w)) = calls w @ [?c0]"
      by simp
    moreover have "\<forall>j<length [?c0]. \<exists>t cv. resolve_ttl ((item # rest) ! j) = Inr t \<and>
                     make_cache_value ((item # rest) ! j) = Inr cv \<and>
                     [?c0] ! j = Setex (nth_key w j) t (json_dumps L cv)"
      using t cv by simp
    moreover have "length [?c0] \<le> length (item # rest)" by simp
    ultimately show ?thesis by blast
  next
    case False
    define w2 where "w2 = w\<lparr>uuid_next := Suc (uuid_next w),
                 calls := calls w @ [Setex (nth_key w 0) t (json_dumps L cv)],
                 entries := (entries w)(nth_key w 0 \<mapsto> (Text (json_dumps L cv), t))\<rparr>"
    have key2: "nth_key w2 j = nth_key w (Suc j)" for j
      by (simp add: w2_def nth_key_def)
    have step2: "store_puts L (item # rest) acc w =
        store_puts L rest (acc @ [JObj [(''uuid'', JStr (nth_key w 0))]]) w2"
      using step False by (simp add: w2_def)
    from Cons.IH [OF oks, of "acc @ [JObj [(''uuid'', JStr (nth_key w 0))]]" w2]
    obtain cs where c: "calls (snd (store_puts L rest
          (acc @ [JObj [(''uuid'', JStr (nth_key w 0))]]) w2)) = calls w2 @ cs"
      and l: "length cs \<le> length rest"
      and each: "\<forall>j<length cs. \<exists>t cv. resolve_ttl (rest ! j) = Inr t \<and>
                     make_cache_value (rest ! j) = Inr cv \<and>
                     cs ! j = Setex (nth_key w2 j) t (json_dumps L cv)"
      by blast
    have c1: "calls (snd (store_puts L (item # rest) acc w)) = calls w @ (?c0 # cs)"
      using c step2 by (simp add: w2_def)
    have c2: "\<forall>j<length (?c0 # cs). \<exists>t cv. resolve_ttl ((item # rest) ! j) = Inr t \<and>
                     make_cache_value ((item # rest) ! j) = Inr cv \<and>
                     (?c0 # cs) ! j = Setex (nth_key w j) t (json_dumps L cv)"
    proof (intro allI impI)
      fix j assume j: "j < length (?c0 # cs)"
      show "\<exists>t cv. resolve_ttl ((item # rest) ! j) = Inr t \<and>
                     make_cache_value ((item # rest) ! j) = Inr cv \<and>
                     (?c0 # cs) ! j = Setex (nth_key w j) t (json_dumps L cv)"
      proof (cases j)
        case 0
        with t cv show ?thesis by simp
      next
        case (Suc j')
        with j have "j' < length cs" by simp
        with each Suc show ?thesis by (simp add: key2)
      qed
    qed
    have "length (?c0 # cs) \<le> length (item # rest)" using l by simp
    with c1 c2 show ?thesis by blast
  qed
qed

lemma store_batch_calls:
  assumes "request_puts data = Inr puts"
  shows "calls (snd (store_batch L data w)) =
           calls (snd (store_puts L puts []
             (put_metrics_count_value_custom ''PostCount'' (int (length puts)) w)))"
  using assms
  by (simp add: store_batch_def put_metrics_count_value_1_def put_metrics_count_value_custom_def
        split: prod.splits sum.splits)

lemma snd_catch_all: "snd (catch_all L r) = snd r"
  by (simp add: catch_all_def split: prod.splits sum.splits)

lemma store_batch_success:
  assumes "request_puts data = Inr puts" "\<forall>item \<in> set puts. item_ok item"
    and "\<forall>j<length puts. \<not> fault w (length (calls w) + j)"
  shows "\<exists>w' cs. store_batch L data w =
           (Inr \<lparr>statusCode = 200, headers = None,
                 body = json_dumps L (JObj [(''responses'',
                   JArr (map (\<lambda>j. JObj [(''uuid'', JStr (nth_key w j))]) [0..<length puts]))])\<rparr>, w') \<and>
           metrics w' = metrics w @ [(''PostCount'', int (length puts)), (''PostSuccess'', 1)] \<and>
           calls w' = calls w @ cs \<and> length cs = length puts \<and>
           (\<forall>j<length puts. \<exists>t cv. resolve_ttl (puts ! j) = Inr t \<and>
                     make_cache_value (puts ! j) = Inr cv \<and>
                     cs ! j = Setex (nth_key w j) t (json_dumps L cv))"
proof -
  let ?w1 = "put_metrics_count_value_custom ''PostCount'' (int (length puts)) w"
  have f: "\<forall>j<length puts. \<not> fault ?w1 (length (calls ?w1) + j)"
    using assms(3) by (simp add: put_metrics_count_value_custom_def)
  have k: "nth_key ?w1 j = nth_key w j" for j
    by (simp add: put_metrics_count_value_custom_def nth_key_def)
  from store_puts_success [OF assms(2) f, of L "[]"] obtain w' cs where
    run: "store_puts L puts [] ?w1 =
        (Inr (map (\<lambda>j. JObj [(''uuid'', JStr (nth_key w j))]) [0..<length puts]), w')"
    and m: "metrics w' = metrics ?w1" and c: "calls w' = calls ?w1 @ cs"
    and l: "length cs = length puts"
    and each: "\<forall>j<length puts. \<exists>t cv. resolve_ttl (puts ! j) = Inr t \<and>
                     make_cache_value (puts ! j) = Inr cv \<and>
                     cs ! j = Setex (nth_key w j) t (json_dumps L cv)"
    unfolding k by auto
  let ?w2 = "put_metrics_count_value_1 ''PostSuccess'' w'"
  have "store_batch L data w =
           (Inr \<lparr>statusCode = 200, headers = None,
                 body = json_dumps L (JObj [(''responses'',
                   JArr (map (\<lambda>j. JObj [(''uuid'', JStr (nth_key w j))]) [0..<length puts]))])\<rparr>, ?w2)"
    using assms(1) run by (simp add: store_batch_def)
  moreover have "metrics ?w2 = metrics w @ [(''PostCount'', int (length puts)), (''PostSuccess'', 1)]"
    using m by (simp add: put_metrics_count_value_1_def put_metrics_count_value_custom_def)
  moreover have "calls ?w2 = calls w @ cs"
    using c by (simp add: put_metrics_count_value_1_def put_metrics_count_value_custom_def)
  ultimately show ?thesis using l each by blast
qed

lemma store_batch_fault:
  assumes "request_puts data = Inr puts" "\<forall>item \<in> set puts. item_ok item"
    and "i < length puts"
    and "\<forall>j<i. \<not> fault w (length (calls w) + j)"
    and "fault w (length (calls w) + i)"
    and "\<forall>j<i. \<forall>j'<i. j \<noteq> j' \<longrightarrow> nth_key w j \<noteq> nth_key w j'"
  shows "\<exists>w'. store_batch L data w = (Inr (error_response L 500 ''Cache error''), w') \<and>
           metrics w' = metrics w @ [(''PostCount'', int (length puts)), (''PostFail'', 1)] \<and>
           (\<forall>j<i. \<exists>t cv. resolve_ttl (puts ! j) = Inr t \<and> make_cache_value (puts ! j) = Inr cv \<and>
                     entries w' (nth_key w j) = Some (Text (json_dumps L cv), t))"
proof -
  let ?w1 = "put_metrics_count_value_custom ''PostCount'' (int (length puts)) w"
  have k: "nth_key ?w1 j = nth_key w j" for j
    by (simp add: put_metrics_count_value_custom_def nth_key_def)
  have f1: "\<forall>j<i. \<not> fault ?w1 (length (calls ?w1) + j)"
    using assms(4) by (simp add: put_metrics_count_value_custom_def)
  have f2: "fault ?w1 (length (calls ?w1) + i)"
    using assms(5) by (simp add: put_metrics_count_value_custom_def)
  have d: "\<forall>j<i. \<forall>j'<i. j \<noteq> j' \<longrightarrow> nth_key ?w1 j \<noteq> nth_key ?w1 j'"
    using assms(6) by (simp add: k)
  from store_puts_fault [OF assms(2) assms(3) f1 f2 d, of L "[]"] obtain w' where
    run: "store_puts L puts [] ?w1 = (Inl RedisError, w')"
    and m: "metrics w' = metrics ?w1"
    and stored: "\<forall>j<i. \<exists>t cv. resolve_ttl (puts ! j) = Inr t \<and>
        make_cache_value (puts ! j) = Inr cv \<and>
        entries w' (nth_key w j) = Some (Text (json_dumps L cv), t)"
    unfolding k by auto
  let ?w2 = "put_metrics_count_value_1 ''PostFail'' w'"
  have "store_batch L data w = (Inr (error_response L 500 ''Cache error''), ?w2)"
    using assms(1) run by (simp add: store_batch_def)
  moreover have "metrics ?w2 = metrics w @ [(''PostCount'', int (length puts)), (''PostFail'', 1)]"
    using m by (simp add: put_metrics_count_value_1_def put_metrics_count_value_custom_def)
  moreover have "entries ?w2 = entries w'"
    by (simp add: put_metrics_count_value_1_def put_metrics_count_value_custom_def)
  ultimately show ?thesis using stored by auto
qed

section \<open>The handlers\<close>

lemma handler_post:
  assumes "path ev = Some ''/cache''" "httpMethod ev = Some ''POST''"
    "req_body ev = Some b" "b \<noteq> []" "json_loads L b = Inr data"
  shows "handler L ev w =
     catch_all L (case validate_post_body data of
                    Inl e \<Rightarrow> (Inl e, w)
                  | Inr ok \<Rightarrow>
                      if \<not> ok
                      then (Inr (error_response L 400 ''Invalid request body''),
                            put_metrics_count_value_1 ''PostFail'' w)
                      else store_batch L data w)"
  using assms by (simp add: handler_def route_def handle_post_request_def)

lemma handler_get:
  assumes "path ev = Some ''/cache''" "httpMethod ev = Some ''GET''"
  shows "handler L ev w = catch_all L (handle_get_request L ev w)"
  using assms by (simp add: handler_def route_def)

text \<open>
  A body on which validation returns \<open>False\<close> is answered with 400 and the PostFail
  counter; no command reaches the backend and nothing is stored.
\<close>

lemma post_invalid_body_rejected:
  assumes "path ev = Some ''/cache''" and "httpMethod ev = Some ''POST''"
    and "req_body ev = Some b" and "b \<noteq> []" and "json_loads L b = Inr data"
    and "validate_post_body data = Inr False"
  shows "handler L ev w =
           (error_response L 400 ''Invalid request body'', put_metrics_count_value_1 ''PostFail'' w)"
    and "calls (snd (handler L ev w)) = calls w"
    and "entries (snd (handler L ev w)) = entries w"
    and "metrics (snd (handler L ev w)) = metrics w @ [(''PostFail'', 1)]"
  using handler_post [OF assms(1-5), of w] assms(6)
  by (simp_all add: catch_all_def put_metrics_count_value_1_def put_metrics_count_value_custom_def)

text \<open>
  A GET whose query parameters are missing, or are a map in which \<open>uuid\<close> is missing or
  empty, is answered with 400 and leaves the world as it is.
\<close>

lemma get_missing_uuid_rejected:
  assumes "path ev = Some ''/cache''" and "httpMethod ev = Some ''GET''"
    and "query_uuid ev = Inr None \<or> query_uuid ev = Inr (Some [])"
  shows "handler L ev w = (error_response L 400 ''Missing uuid parameter'', w)"
  using assms
  by (auto simp: handler_def route_def catch_all_def handle_get_request_def)

lemma get_stored_item:
  assumes "path ev = Some ''/cache''" and "httpMethod ev = Some ''GET''"
    and "query_uuid ev = Inr (Some key)" and "key \<noteq> []"
    and "entries w key = Some (Text s, r)"
    and "json_loads L s = Inr (JObj [(''type'', JStr ty), (''value'', V)])"
    and "\<not> fault w (length (calls w))" and "\<not> fault w (Suc (length (calls w)))"
  shows "fst (handler L ev w) =
           \<lparr>statusCode = 200,
            headers = Some [(''Cache-Control'', ''max-age='' @ str_of_int r),
                            (''Content-Type'', ''application/'' @ ty)],
            body = json_dumps L V\<rparr>"
    and "metrics (snd (handler L ev w)) = metrics w @ [(''GetSuccess'', 1)]"
  using assms
  by (simp_all add: handler_def route_def catch_all_def handle_get_request_def get_lookup_def
        get_found_def redis_get_def redis_ttl_def issue_def decode_reply_def dict_has_def dict_get_def
        format_value_def put_metrics_count_value_1_def put_metrics_count_value_custom_def)

text \<open>
  The round trip of an item that carries a \<open>ttlseconds\<close> accepted by validation: the POST
  returns 200 with the generated key and stores the record under it; a later GET for
  that key, in any world that still holds the record (with \<open>r\<close> seconds left), returns
  200, \<open>Cache-Control: max-age=r\<close>, \<open>Content-Type: application/json\<close> and the value
  alone, serialised. The library is assumed to read back what it wrote.
\<close>

lemma post_get_round_trip:
  assumes "path ev = Some ''/cache''" and "httpMethod ev = Some ''POST''"
    and "req_body ev = Some b" and "b \<noteq> []" and "json_loads L b = Inr data"
    and "request_puts data = Inr [JObj d]"
    and "map_of d ''type'' = Some (JStr ''json'')" and "map_of d ''value'' = Some V"
    and "map_of d ''ttlseconds'' = Some x" and "py_int x = Inr n" and "0 < n" and "n \<le> 3600"
    and "\<not> fault w (length (calls w))"
    and "path ev' = Some ''/cache''" and "httpMethod ev' = Some ''GET''"
    and "query_uuid ev' = Inr (Some (nth_key w 0))" and "nth_key w 0 \<noteq> []"
    and "entries w' (nth_key w 0) =
           Some (Text (json_dumps L (JObj [(''type'', JStr ''json''), (''value'', V)])), r)"
    and "json_loads L (json_dumps L (JObj [(''type'', JStr ''json''), (''value'', V)])) =
           Inr (JObj [(''type'', JStr ''json''), (''value'', V)])"
    and "\<not> fault w' (length (calls w'))" and "\<not> fault w' (Suc (length (calls w')))"
  shows "fst (handler L ev w) =
           \<lparr>statusCode = 200, headers = None,
            body = json_dumps L (JObj [(''responses'', JArr [JObj [(''uuid'', JStr (nth_key w 0))]])])\<rparr>"
    and "entries (snd (handler L ev w)) (nth_key w 0) =
           Some (Text (json_dumps L (JObj [(''type'', JStr ''json''), (''value'', V)])), n)"
    and "fst (handler L ev' w') =
           \<lparr>statusCode = 200,
            headers = Some [(''Cache-Control'', ''max-age='' @ str_of_int r),
                            (''Content-Type'', ''application/json'')],
            body = json_dumps L V\<rparr>"
proof -
  have v: "validate_post_body data = Inr True"
    using validate_post_body_puts [OF assms(6)] assms(7-12)
    by (simp add: dict_has_def dict_get_def in_allowed_types_def ALLOWED_TYPES_def
          validate_post_ttlseconds_def TTL_MAX_SECONDS_def)
  have h: "handler L ev w = catch_all L (store_batch L data w)"
    using handler_post [OF assms(1-5), of w] v by simp
  show "fst (handler L ev w) =
           \<lparr>statusCode = 200, headers = None,
            body = json_dumps L (JObj [(''responses'', JArr [JObj [(''uuid'', JStr (nth_key w 0))]])])\<rparr>"
    and "entries (snd (handler L ev w)) (nth_key w 0) =
           Some (Text (json_dumps L (JObj [(''type'', JStr ''json''), (''value'', V)])), n)"
    unfolding h using assms(6-13)
    by (simp_all add: store_batch_def catch_all_def resolve_ttl_def make_cache_value_def
          dict_get_def dict_item_def TTL_MAX_SECONDS_def uuid4_def redis_setex_def issue_def
          put_metrics_count_value_1_def put_metrics_count_value_custom_def nth_key_def
          py_lower_allowed)
  show "fst (handler L ev' w') =
           \<lparr>statusCode = 200,
            headers = Some [(''Cache-Control'', ''max-age='' @ str_of_int r),
                            (''Content-Type'', ''application/json'')],
            body = json_dumps L V\<rparr>"
    using get_stored_item(1) [OF assms(14-19) assms(20,21)] by simp
qed

text \<open>An instance: the item is stored for 60 seconds and read back at once.\<close>

lemma post_get_round_trip_example:
  \<open>fst (handler example_lib
      (get_event (QMap [(''uuid'', ''00000000-0000-4000-8000-000000000000'')]))
      (snd (handler example_lib
         (post_event ''{"puts": [{"type": "json", "value": {"a": 1}, "ttlseconds": 60}]}'')
         example_world))) =
     \<lparr>statusCode = 200,
      headers = Some [(''Cache-Control'', ''max-age=60''), (''Content-Type'', ''application/json'')],
      body = ''{"a": 1}''\<rparr>\<close>
proof -
  let ?b = \<open>''{"puts": [{"type": "json", "value": {"a": 1}, "ttlseconds": 60}]}''\<close>
  let ?d = "[(''type'', JStr ''json''), (''value'', JObj [(''a'', JInt 1)]), (''ttlseconds'', JInt 60)]"
  let ?data = "JObj [(''puts'', JArr [JObj ?d])]"
  let ?q = "QMap [(''uuid'', ''00000000-0000-4000-8000-000000000000'')]"
  let ?w' = "snd (handler example_lib (post_event ?b) example_world)"
  have key: "nth_key example_world 0 = ''00000000-0000-4000-8000-000000000000''"
    by (simp add: nth_key_def example_world_def str_of_nat.simps)
  have ev: "path (post_event ?b) = Some ''/cache''" "httpMethod (post_event ?b) = Some ''POST''"
    "req_body (post_event ?b) = Some ?b" "?b \<noteq> []"
    by (simp_all add: post_event_def)
  have loads: "json_loads example_lib ?b = Inr ?data"
    by (simp add: example_defs)
  have puts: "request_puts ?data = Inr [JObj ?d]"
    by (simp add: model_defs)
  have d: "map_of ?d ''type'' = Some (JStr ''json'')" "map_of ?d ''value'' = Some (JObj [(''a'', JInt 1)])"
    "map_of ?d ''ttlseconds'' = Some (JInt 60)" "py_int (JInt 60) = Inr 60" "(0::int) < 60"
    "(60::int) \<le> 3600"
    by simp_all
  have nofault: "\<not> fault example_world (length (calls example_world))"
    by (simp add: example_world_def)
  have ev': "path (get_event ?q) = Some ''/cache''" "httpMethod (get_event ?q) = Some ''GET''"
    "query_uuid (get_event ?q) = Inr (Some (nth_key example_world 0))"
    "nth_key example_world 0 \<noteq> []"
    by (simp_all add: get_event_def query_uuid_def key)
  have rt: "json_loads example_lib
      (json_dumps example_lib (JObj [(''type'', JStr ''json''), (''value'', JObj [(''a'', JInt 1)])])) =
      Inr (JObj [(''type'', JStr ''json''), (''value'', JObj [(''a'', JInt 1)])])"
    by (simp add: example_defs)
  have held: "entries ?w' (nth_key example_world 0) =
      Some (Text (json_dumps example_lib
        (JObj [(''type'', JStr ''json''), (''value'', JObj [(''a'', JInt 1)])])), 60)"
    by (simp add: model_defs example_defs)
  have nf: "\<not> fault ?w' (length (calls ?w'))" "\<not> fault ?w' (Suc (length (calls ?w')))"
    by (simp_all add: model_defs example_defs)
  from post_get_round_trip(3) [OF ev loads puts d nofault ev' held rt nf]
  show ?thesis
    by (simp add: key str_of_int_def str_of_nat.simps example_defs)
qed

section \<open>The claims\<close>

subsection \<open>C1: the TTL used at storage\<close>

text \<open>
  Claim C1 has every item of a validated batch stored with the supplied \<open>ttlseconds\<close>
  when that is an integer in \<open>(0, 3600]\<close>, and with 300 seconds otherwise. The storage
  loop uses \<open>int(ttlseconds)\<close>. For the body below validation passes, since
  \<open>int(1.5) = 1\<close>, and the item is stored for 1 second: neither the supplied value nor
  the default.
\<close>

theorem post_fractional_ttl_truncated:
  \<open>json_loads example_lib ''{"puts": [{"type": "json", "value": {"a": 1}, "ttlseconds": 1.5}]}'' =
      Inr (JObj [(''puts'', JArr [JObj [(''type'', JStr ''json''), (''value'', JObj [(''a'', JInt 1)]),
                                         (''ttlseconds'', JFloat (Finite (3 / 2)))]])]) \<and>
   validate_post_body
      (JObj [(''puts'', JArr [JObj [(''type'', JStr ''json''), (''value'', JObj [(''a'', JInt 1)]),
                                    (''ttlseconds'', JFloat (Finite (3 / 2)))]])]) = Inr True \<and>
   statusCode (fst (handler example_lib
      (post_event ''{"puts": [{"type": "json", "value": {"a": 1}, "ttlseconds": 1.5}]}'')
      example_world)) = 200 \<and>
   calls (snd (handler example_lib
      (post_event ''{"puts": [{"type": "json", "value": {"a": 1}, "ttlseconds": 1.5}]}'')
      example_world)) =
     [Setex ''00000000-0000-4000-8000-000000000000'' 1 ''{"type": "json", "value": {"a": 1}}''] \<and>
   spec_effective_ttl (Some (JFloat (Finite (3 / 2)))) = 300\<close>
  by (simp add: model_defs example_defs spec_effective_ttl_def)

text \<open>
  C1, amended: for every POST to \<open>/cache\<close> whose body passes validation, and for every
  item of \<open>puts\<close> that supplies \<open>ttlseconds\<close>, the TTL used at storage is
  \<open>int(ttlseconds)\<close>, which lies in \<open>(0, 3600]\<close>; when the supplied value is an integer
  this is the value itself (\<open>py_int (JInt n) = Inr n\<close>). That is the TTL the storage loop
  resolves for the item, and whenever the request gets as far as the item, its \<open>setex\<close>,
  under the generated key, carries it. When no \<open>setex\<close> of the batch fails the request
  gets to every item and is answered with 200.
\<close>

theorem post_ttl_is_int_of_supplied:
  assumes "path ev = Some ''/cache''" and "httpMethod ev = Some ''POST''"
    and "req_body ev = Some b" and "b \<noteq> []" and "json_loads L b = Inr data"
    and valid: "validate_post_body data = Inr True"
    and puts: "request_puts data = Inr puts"
    and j: "j < length puts" and item: "puts ! j = JObj d"
    and x: "map_of d ''ttlseconds'' = Some x"
  shows "\<exists>n. py_int x = Inr n \<and> 0 < n \<and> n \<le> 3600 \<and> resolve_ttl (puts ! j) = Inr n \<and>
           (length (calls w) + j < length (calls (snd (handler L ev w))) \<longrightarrow>
              (\<exists>payload. calls (snd (handler L ev w)) ! (length (calls w) + j) =
                 Setex (nth_key w j) n payload)) \<and>
           ((\<forall>k<length puts. \<not> fault w (length (calls w) + k)) \<longrightarrow>
              statusCode (fst (handler L ev w)) = 200 \<and>
              length (calls (snd (handler L ev w))) = length (calls w) + length puts)"
proof -
  from validate_post_body_True [OF valid] puts have "validate_post_puts puts = Inr True"
    by auto
  then have oks: "\<forall>item \<in> set puts. item_ok item"
    by (simp add: validate_post_puts_all)
  have h: "handler L ev w = catch_all L (store_batch L data w)"
    using handler_post [OF assms(1-5), of w] valid by simp
  from oks j have "item_ok (puts ! j)" by simp
  from item_ok_resolve_ttl [OF this] item x obtain n where
    n: "py_int x = Inr n" "0 < n" "n \<le> 3600" "resolve_ttl (puts ! j) = Inr n"
    by auto
  let ?w1 = "put_metrics_count_value_custom ''PostCount'' (int (length puts)) w"
  have w1: "calls ?w1 = calls w" "nth_key ?w1 k = nth_key w k" for k
    by (simp_all add: put_metrics_count_value_custom_def nth_key_def)
  from store_puts_calls [OF oks, of L "[]" ?w1] obtain cs where
    c: "calls (snd (store_puts L puts [] ?w1)) = calls w @ cs"
    and each: "\<forall>j<length cs. \<exists>t cv. resolve_ttl (puts ! j) = Inr t \<and>
                     make_cache_value (puts ! j) = Inr cv \<and>
                     cs ! j = Setex (nth_key w j) t (json_dumps L cv)"
    unfolding w1 by blast
  have hc: "calls (snd (handler L ev w)) = calls w @ cs"
    unfolding h snd_catch_all store_batch_calls [OF puts] by (rule c)
  have attempted: "length (calls w) + j < length (calls (snd (handler L ev w))) \<longrightarrow>
      (\<exists>payload. calls (snd (handler L ev w)) ! (length (calls w) + j) =
         Setex (nth_key w j) n payload)"
  proof
    assume "length (calls w) + j < length (calls (snd (handler L ev w)))"
    with hc have jc: "j < length cs" by simp
    with each n(4) obtain cv where "cs ! j = Setex (nth_key w j) n (json_dumps L cv)"
      by auto
    with hc show "\<exists>payload. calls (snd (handler L ev w)) ! (length (calls w) + j) =
         Setex (nth_key w j) n payload"
      by (simp add: nth_append)
  qed
  have complete: "(\<forall>k<length puts. \<not> fault w (length (calls w) + k)) \<longrightarrow>
      statusCode (fst (handler L ev w)) = 200 \<and>
      length (calls (snd (handler L ev w))) = length (calls w) + length puts"
  proof
    assume nofault: "\<forall>k<length puts. \<not> fault w (length (calls w) + k)"
    from store_batch_success [OF puts oks nofault, of L] obtain r w' cs' where
      run: "store_batch L data w = (Inr r, w')" and r: "statusCode r = 200"
      and c': "calls w' = calls w @ cs'" and l: "length cs' = length puts"
      by fastforce
    then show "statusCode (fst (handler L ev w)) = 200 \<and>
      length (calls (snd (handler L ev w))) = length (calls w) + length puts"
      unfolding h by (simp add: catch_all_def)
  qed
  from n attempted complete show ?thesis by blast
qed

text \<open>An instance: one item with \<open>ttlseconds\<close> 60.\<close>

theorem post_ttl_is_int_of_supplied_witness:
  \<open>\<exists>payload. calls (snd (handler example_lib
      (post_event ''{"puts": [{"type": "json", "value": {"a": 1}, "ttlseconds": 60}]}'')
      example_world)) ! 0 = Setex ''00000000-0000-4000-8000-000000000000'' 60 payload\<close>
proof -
  let ?b = \<open>''{"puts": [{"type": "json", "value": {"a": 1}, "ttlseconds": 60}]}''\<close>
  let ?d = "[(''type'', JStr ''json''), (''value'', JObj [(''a'', JInt 1)]), (''ttlseconds'', JInt 60)]"
  let ?data = "JObj [(''puts'', JArr [JObj ?d])]"
  have ev: "path (post_event ?b) = Some ''/cache''" "httpMethod (post_event ?b) = Some ''POST''"
    "req_body (post_event ?b) = Some ?b" "?b \<noteq> []"
    by (simp_all add: post_event_def)
  have loads: "json_loads example_lib ?b = Inr ?data"
    by (simp add: example_defs)
  have valid: "validate_post_body ?data = Inr True"
    by (simp add: model_defs)
  have puts: "request_puts ?data = Inr [JObj ?d]"
    by (simp add: model_defs)
  have nofault: "\<forall>j<length [JObj ?d]. \<not> fault example_world (length (calls example_world) + j)"
    by (simp add: example_world_def)
  from post_ttl_is_int_of_supplied [OF ev loads valid puts, of 0 ?d "JInt 60" example_world]
  obtain n where "py_int (JInt 60) = Inr n"
    and reached: "length (calls example_world) + 0 <
           length (calls (snd (handler example_lib (post_event ?b) example_world))) \<longrightarrow>
       (\<exists>payload. calls (snd (handler example_lib (post_event ?b) example_world)) !
           (length (calls example_world) + 0) = Setex (nth_key example_world 0) n payload)"
    and complete: "(\<forall>k<length [JObj ?d]. \<not> fault example_world (length (calls example_world) + k)) \<longrightarrow>
       length (calls (snd (handler example_lib (post_event ?b) example_world))) =
         length (calls example_world) + length [JObj ?d]"
    by auto
  from complete nofault
  have "length (calls example_world) + 0 <
           length (calls (snd (handler example_lib (post_event ?b) example_world)))"
    by simp
  with reached \<open>py_int (JInt 60) = Inr n\<close> show ?thesis
    by (auto simp: example_world_def nth_key_def str_of_nat.simps)
qed

subsection \<open>C2: the round trip\<close>

text \<open>
  Claim C2 has a POST that stores one item with type \<open>json\<close> and a value return 200 with
  a generated key, and a later GET return the value. For an item that carries only
  \<open>type\<close> and \<open>value\<close> the POST returns 400 and stores nothing: validation reads a
  missing \<open>ttlseconds\<close> as 0 and rejects it, while the storage loop would have used the
  default of 300 seconds (lemma \<open>post_get_round_trip\<close> covers the item with an
  accepted \<open>ttlseconds\<close>).
\<close>

theorem post_without_ttlseconds_rejected:
  \<open>json_loads example_lib ''{"puts": [{"type": "json", "value": {"a": 1}}]}'' =
      Inr (JObj [(''puts'', JArr [JObj [(''type'', JStr ''json''),
                                         (''value'', JObj [(''a'', JInt 1)])]])]) \<and>
   handler example_lib (post_event ''{"puts": [{"type": "json", "value": {"a": 1}}]}'')
      example_world =
     (\<lparr>statusCode = 400, headers = None, body = ''{"error": "Invalid request body"}''\<rparr>,
      example_world\<lparr>metrics := [(''PostFail'', 1)]\<rparr>)\<close>
  by (simp add: model_defs example_defs)

subsection \<open>C3: the routing matrix\<close>

text \<open>
  Claim C3: the path \<open>/cache/health\<close> goes to the health check whatever the method; a
  path other than \<open>/cache\<close> and \<open>/cache/health\<close> is answered with 404; \<open>/cache\<close> with GET
  goes to the GET handler and with POST to the POST handler, each under the router's
  catch-all; \<open>/cache\<close> with another method is answered with 405; and a response with
  status 200 comes from one of the three routes only.
\<close>

theorem routing_matrix:
  "(path ev = Some ''/cache/health'' \<longrightarrow>
      handler L ev w = catch_all L (handle_health_check L w)) \<and>
   (\<forall>p. path ev = Some p \<and> p \<noteq> ''/cache'' \<and> p \<noteq> ''/cache/health'' \<longrightarrow>
      handler L ev w = (error_response L 404 ''Not found'', w)) \<and>
   (path ev = Some ''/cache'' \<and> httpMethod ev = Some ''GET'' \<longrightarrow>
      handler L ev w = catch_all L (handle_get_request L ev w)) \<and>
   (path ev = Some ''/cache'' \<and> httpMethod ev = Some ''POST'' \<longrightarrow>
      handler L ev w = catch_all L (handle_post_request L ev w)) \<and>
   (\<forall>m. path ev = Some ''/cache'' \<and> httpMethod ev = Some m \<and> m \<noteq> ''GET'' \<and> m \<noteq> ''POST'' \<longrightarrow>
      handler L ev w = (error_response L 405 ''Method not allowed'', w)) \<and>
   (statusCode (fst (handler L ev w)) = 200 \<longrightarrow>
      path ev = Some ''/cache/health'' \<or>
      (path ev = Some ''/cache'' \<and> (httpMethod ev = Some ''GET'' \<or> httpMethod ev = Some ''POST'')))"
  by (auto simp: handler_def route_def catch_all_def error_response_def split: option.splits)

text \<open>Instances: DELETE on the health path, an unknown path, PUT on \<open>/cache\<close>.\<close>

theorem routing_matrix_witness:
  "statusCode (fst (handler example_lib
      \<lparr>path = Some ''/cache/health'', httpMethod = Some ''DELETE'',
       queryStringParameters = QNull, req_body = None\<rparr> example_world)) = 200 \<and>
   statusCode (fst (handler example_lib
      \<lparr>path = Some ''/cache/status'', httpMethod = Some ''GET'',
       queryStringParameters = QNull, req_body = None\<rparr> example_world)) = 404 \<and>
   statusCode (fst (handler example_lib
      \<lparr>path = Some ''/cache'', httpMethod = Some ''PUT'',
       queryStringParameters = QNull, req_body = None\<rparr> example_world)) = 405"
proof -
  let ?health = "\<lparr>path = Some ''/cache/health'', httpMethod = Some ''DELETE'',
       queryStringParameters = QNull, req_body = None\<rparr>"
  let ?other = "\<lparr>path = Some ''/cache/status'', httpMethod = Some ''GET'',
       queryStringParameters = QNull, req_body = None\<rparr>"
  let ?put = "\<lparr>path = Some ''/cache'', httpMethod = Some ''PUT'',
       queryStringParameters = QNull, req_body = None\<rparr>"
  have "handler example_lib ?health example_world =
          catch_all example_lib (handle_health_check example_lib example_world)"
    using routing_matrix [of ?health example_lib example_world] by simp
  then have a: "statusCode (fst (handler example_lib ?health example_world)) = 200"
    by (simp add: catch_all_def handle_health_check_def redis_ping_def issue_def example_world_def)
  have b: "handler example_lib ?other example_world =
          (error_response example_lib 404 ''Not found'', example_world)"
    using routing_matrix [of ?other example_lib example_world] by simp
  have c: "handler example_lib ?put example_world =
          (error_response example_lib 405 ''Method not allowed'', example_world)"
    using routing_matrix [of ?put example_lib example_world] by simp
  show ?thesis
    unfolding b c using a by (simp add: error_response_def)
qed

subsection \<open>C4: not found and corrupted entries\<close>

text \<open>
  Claim C4, for a GET to \<open>/cache\<close> with a non-empty \<open>uuid\<close>: when the backend returns no
  value the response is 404 with the error \<open>Uuid not found\<close> (and the GetNotFound
  counter); when it returns a value that does not decode and parse to an object with
  both \<open>type\<close> and \<open>value\<close>, the response is 500. Its error is \<open>Invalid encoding in
  cached value\<close> when decoding fails, \<open>Invalid cached value format\<close> when
  \<open>json.loads\<close> raises JSONDecodeError, \<open>Invalid cached value structure\<close> when the
  parsed value is not such an object, and the router's \<open>Internal server error\<close> when
  \<open>json.loads\<close> raises anything else (\<open>Cache error\<close> should that be a RedisError).
\<close>

theorem get_not_found_vs_corrupted:
  assumes "path ev = Some ''/cache''" and "httpMethod ev = Some ''GET''"
    and "query_uuid ev = Inr (Some key)" and "key \<noteq> []"
  shows "(fst (redis_get key w) = Inr None \<longrightarrow>
            fst (handler L ev w) = error_response L 404 ''Uuid not found'' \<and>
            metrics (snd (handler L ev w)) = metrics w @ [(''GetNotFound'', 1)]) \<and>
         (\<forall>reply. fst (redis_get key w) = Inr (Some reply) \<and>
            \<not> (\<exists>s d. decode_reply L reply = Some s \<and> json_loads L s = Inr (JObj d) \<and>
                   dict_has d ''type'' \<and> dict_has d ''value'') \<longrightarrow>
            statusCode (fst (handler L ev w)) = 500 \<and>
            (body (fst (handler L ev w)) = error_body L ''Invalid encoding in cached value'' \<or>
             body (fst (handler L ev w)) = error_body L ''Invalid cached value format'' \<or>
             body (fst (handler L ev w)) = error_body L ''Invalid cached value structure'' \<or>
             body (fst (handler L ev w)) = error_body L ''Internal server error'' \<or>
             body (fst (handler L ev w)) = error_body L ''Cache error''))"
proof -
  have h: "handler L ev w = catch_all L (handle_get_request L ev w)"
    using assms(1,2) by (simp add: handler_def route_def)
  show ?thesis
    unfolding h using assms(3,4)
    by (auto simp: handle_get_request_def get_lookup_def catch_all_def get_found_def
          error_response_def put_metrics_count_value_1_def put_metrics_count_value_custom_def
          redis_get_def issue_def
        split: prod.splits sum.splits option.splits json.splits if_splits)
qed

text \<open>
  Instances: an empty backend; an entry whose record lacks \<open>value\<close>; and the same entry
  read with a library whose \<open>json.loads\<close> raises RecursionError.
\<close>

theorem get_not_found_vs_corrupted_witness:
  \<open>fst (handler example_lib (get_event (QMap [(''uuid'', ''no-such-key'')])) example_world) =
      error_response example_lib 404 ''Uuid not found'' \<and>
   statusCode (fst (handler example_lib (get_event (QMap [(''uuid'', ''broken'')]))
      (example_world\<lparr>entries := [''broken'' \<mapsto> (Text ''{"type": "json"}'', 30)]\<rparr>))) = 500 \<and>
   statusCode (fst (handler (example_lib\<lparr>json_loads := (\<lambda>s. Inl RecursionError)\<rparr>)
      (get_event (QMap [(''uuid'', ''broken'')]))
      (example_world\<lparr>entries := [''broken'' \<mapsto> (Text ''{"type": "json"}'', 30)]\<rparr>))) = 500\<close>
proof -
  let ?w = \<open>example_world\<lparr>entries := [''broken'' \<mapsto> (Text ''{"type": "json"}'', 30)]\<rparr>\<close>
  let ?deep = "example_lib\<lparr>json_loads := (\<lambda>s. Inl RecursionError)\<rparr>"
  have ev: "path (get_event q) = Some ''/cache''" "httpMethod (get_event q) = Some ''GET''" for q
    by (simp_all add: get_event_def)
  have q1: "query_uuid (get_event (QMap [(''uuid'', ''no-such-key'')])) = Inr (Some ''no-such-key'')"
    and q2: "query_uuid (get_event (QMap [(''uuid'', ''broken'')])) = Inr (Some ''broken'')"
    by (simp_all add: get_event_def query_uuid_def)
  have none: "fst (redis_get ''no-such-key'' example_world) = Inr None"
    by (simp add: redis_get_def issue_def example_world_def)
  have some: \<open>fst (redis_get ''broken'' ?w) = Inr (Some (Text ''{"type": "json"}''))\<close>
    by (simp add: redis_get_def issue_def example_world_def)
  have bad: \<open>\<not> (\<exists>s d. decode_reply example_lib (Text ''{"type": "json"}'') = Some s \<and>
           json_loads example_lib s = Inr (JObj d) \<and> dict_has d ''type'' \<and> dict_has d ''value'')\<close>
    by (auto simp: decode_reply_def example_defs dict_has_def)
  have deep: \<open>\<not> (\<exists>s d. decode_reply ?deep (Text ''{"type": "json"}'') = Some s \<and>
           json_loads ?deep s = Inr (JObj d) \<and> dict_has d ''type'' \<and> dict_has d ''value'')\<close>
    by simp
  from get_not_found_vs_corrupted [OF ev q1, of example_world example_lib] none
  have a: "fst (handler example_lib (get_event (QMap [(''uuid'', ''no-such-key'')])) example_world) =
      error_response example_lib 404 ''Uuid not found''"
    by simp
  from get_not_found_vs_corrupted [OF ev q2, of ?w example_lib] some bad
  have b: "statusCode (fst (handler example_lib (get_event (QMap [(''uuid'', ''broken'')])) ?w)) = 500"
    by blast
  from get_not_found_vs_corrupted [OF ev q2, of ?w ?deep] some deep
  have c: "statusCode (fst (handler ?deep (get_event (QMap [(''uuid'', ''broken'')])) ?w)) = 500"
    by blast
  from a b c show ?thesis by simp
qed

subsection \<open>C5: rejection of a malformed batch\<close>

text \<open>
  Claim C5 has every body that fails structural validation, among them a body with an
  item whose \<open>type\<close> is not in the allowed set, answered with 400, the error
  \<open>Invalid request body\<close> and the PostFail counter. That holds where validation returns
  \<open>False\<close> (lemma \<open>post_invalid_body_rejected\<close>). For an item whose \<open>type\<close> is a list the
  membership test raises TypeError instead, validation returns nothing, and the router
  answers with 500 and no counter. Nothing is stored in either case.
\<close>

theorem post_unhashable_type_is_500:
  \<open>json_loads example_lib ''{"puts": [{"type": [], "value": 1}]}'' =
      Inr (JObj [(''puts'', JArr [JObj [(''type'', JArr []), (''value'', JInt 1)]])]) \<and>
   validate_post_body (JObj [(''puts'', JArr [JObj [(''type'', JArr []), (''value'', JInt 1)]])]) =
      Inl TypeError \<and>
   handler example_lib (post_event ''{"puts": [{"type": [], "value": 1}]}'') example_world =
     (\<lparr>statusCode = 500, headers = None, body = ''{"error": "Internal server error"}''\<rparr>,
      example_world)\<close>
  by (simp add: model_defs example_defs)

subsection \<open>C6: a backend failure in the middle of a batch\<close>

text \<open>
  Claim C6: when, in a batch that passes validation, \<open>setex\<close> fails on the item with
  index \<open>i\<close> and on none before it, the response is 500 with the error \<open>Cache error\<close>,
  the counters PostCount and PostFail are emitted, and every item before \<open>i\<close> is in the
  backend under its generated key, with its record and its TTL. The generated keys of
  those items are assumed distinct.
\<close>

theorem batch_failure_keeps_stored_items:
  assumes "path ev = Some ''/cache''" and "httpMethod ev = Some ''POST''"
    and "req_body ev = Some b" and "b \<noteq> []" and "json_loads L b = Inr data"
    and valid: "validate_post_body data = Inr True"
    and puts: "request_puts data = Inr puts"
    and i: "i < length puts"
    and before: "\<forall>j<i. \<not> fault w (length (calls w) + j)"
    and fails: "fault w (length (calls w) + i)"
    and keys: "\<forall>j<i. \<forall>j'<i. j \<noteq> j' \<longrightarrow> nth_key w j \<noteq> nth_key w j'"
  shows "fst (handler L ev w) = error_response L 500 ''Cache error'' \<and>
         metrics (snd (handler L ev w)) =
           metrics w @ [(''PostCount'', int (length puts)), (''PostFail'', 1)] \<and>
         (\<forall>j<i. \<exists>t cv. resolve_ttl (puts ! j) = Inr t \<and> make_cache_value (puts ! j) = Inr cv \<and>
            entries (snd (handler L ev w)) (nth_key w j) = Some (Text (json_dumps L cv), t))"
proof -
  from validate_post_body_True [OF valid] puts have "validate_post_puts puts = Inr True"
    by auto
  then have oks: "\<forall>item \<in> set puts. item_ok item"
    by (simp add: validate_post_puts_all)
  from store_batch_fault [OF puts oks i before fails keys, of L] obtain w' where
    run: "store_batch L data w = (Inr (error_response L 500 ''Cache error''), w')"
    and m: "metrics w' = metrics w @ [(''PostCount'', int (length puts)), (''PostFail'', 1)]"
    and stored: "\<forall>j<i. \<exists>t cv. resolve_ttl (puts ! j) = Inr t \<and>
        make_cache_value (puts ! j) = Inr cv \<and>
        entries w' (nth_key w j) = Some (Text (json_dumps L cv), t)"
    by blast
  have h: "handler L ev w = (error_response L 500 ''Cache error'', w')"
    using handler_post [OF assms(1-5), of w] valid run by (simp add: catch_all_def)
  show ?thesis using m stored by (simp add: h)
qed

text \<open>An instance: two items, the second \<open>setex\<close> fails.\<close>

theorem batch_failure_keeps_stored_items_witness:
  \<open>fst (handler example_lib
      (post_event ''{"puts": [{"type": "xml", "value": "<a/>", "ttlseconds": 60}, {"type": "json", "value": 1, "ttlseconds": 120}]}'')
      (example_world\<lparr>fault := (\<lambda>n. n = 1)\<rparr>)) =
     error_response example_lib 500 ''Cache error'' \<and>
   metrics (snd (handler example_lib
      (post_event ''{"puts": [{"type": "xml", "value": "<a/>", "ttlseconds": 60}, {"type": "json", "value": 1, "ttlseconds": 120}]}'')
      (example_world\<lparr>fault := (\<lambda>n. n = 1)\<rparr>))) = [(''PostCount'', 2), (''PostFail'', 1)] \<and>
   entries (snd (handler example_lib
      (post_event ''{"puts": [{"type": "xml", "value": "<a/>", "ttlseconds": 60}, {"type": "json", "value": 1, "ttlseconds": 120}]}'')
      (example_world\<lparr>fault := (\<lambda>n. n = 1)\<rparr>))) ''00000000-0000-4000-8000-000000000000'' =
     Some (Text ''{"type": "xml", "value": "<a/>"}'', 60)\<close>
proof -
  let ?b = \<open>''{"puts": [{"type": "xml", "value": "<a/>", "ttlseconds": 60}, {"type": "json", "value": 1, "ttlseconds": 120}]}''\<close>
  let ?i0 = "JObj [(''type'', JStr ''xml''), (''value'', JStr ''<a/>''), (''ttlseconds'', JInt 60)]"
  let ?i1 = "JObj [(''type'', JStr ''json''), (''value'', JInt 1), (''ttlseconds'', JInt 120)]"
  let ?data = "JObj [(''puts'', JArr [?i0, ?i1])]"
  let ?w = "example_world\<lparr>fault := (\<lambda>n. n = 1)\<rparr>"
  have ev: "path (post_event ?b) = Some ''/cache''" "httpMethod (post_event ?b) = Some ''POST''"
    "req_body (post_event ?b) = Some ?b" "?b \<noteq> []"
    by (simp_all add: post_event_def)
  have loads: "json_loads example_lib ?b = Inr ?data"
    by (simp add: example_defs)
  have valid: "validate_post_body ?data = Inr True"
    by (simp add: model_defs)
  have puts: "request_puts ?data = Inr [?i0, ?i1]"
    by (simp add: model_defs)
  have i: "1 < length [?i0, ?i1]" by simp
  have before: "\<forall>j<1. \<not> fault ?w (length (calls ?w) + j)"
    by (simp add: example_world_def)
  have fails: "fault ?w (length (calls ?w) + 1)"
    by (simp add: example_world_def)
  have keys: "\<forall>j<1. \<forall>j'<1. j \<noteq> j' \<longrightarrow> nth_key ?w j \<noteq> nth_key ?w j'"
    by simp
  note T = batch_failure_keeps_stored_items [OF ev loads valid puts i before fails keys]
  from T have a: "fst (handler example_lib (post_event ?b) ?w) =
      error_response example_lib 500 ''Cache error''"
    and m: "metrics (snd (handler example_lib (post_event ?b) ?w)) =
      metrics ?w @ [(''PostCount'', int (length [?i0, ?i1])), (''PostFail'', 1)]"
    and "\<forall>j<1. \<exists>t cv. resolve_ttl ([?i0, ?i1] ! j) = Inr t \<and>
            make_cache_value ([?i0, ?i1] ! j) = Inr cv \<and>
            entries (snd (handler example_lib (post_event ?b) ?w)) (nth_key ?w j) =
              Some (Text (json_dumps example_lib cv), t)"
    by blast+
  then obtain t cv where "resolve_ttl ?i0 = Inr t" "make_cache_value ?i0 = Inr cv"
    and e: "entries (snd (handler example_lib (post_event ?b) ?w)) (nth_key ?w 0) =
              Some (Text (json_dumps example_lib cv), t)"
    by auto
  then have "t = 60" \<open>json_dumps example_lib cv = ''{"type": "xml", "value": "<a/>"}''\<close>
    by (auto simp: model_defs example_defs)
  with e have \<open>entries (snd (handler example_lib (post_event ?b) ?w))
      ''00000000-0000-4000-8000-000000000000'' = Some (Text ''{"type": "xml", "value": "<a/>"}'', 60)\<close>
    by (simp add: nth_key_def example_world_def str_of_nat.simps)
  with a m show ?thesis by (simp add: example_world_def)
qed

subsection \<open>C7: a GET without \<open>uuid\<close>\<close>

text \<open>
  Claim C7 has every GET to \<open>/cache\<close> without a \<open>uuid\<close> answered with 400 and the error
  \<open>Missing uuid parameter\<close>. That holds when \<open>queryStringParameters\<close> is missing or is a
  map (lemma \<open>get_missing_uuid_rejected\<close>). When the field is present and null, which an
  event carries for a request without a query string, the answer is 500.
\<close>

theorem get_null_query_params_rejected_as_500:
  \<open>handler example_lib
      \<lparr>path = Some ''/cache'', httpMethod = Some ''GET'', queryStringParameters = QNull,
       req_body = None\<rparr> example_world =
     (\<lparr>statusCode = 500, headers = None, body = ''{"error": "Internal server error"}''\<rparr>,
      example_world)\<close>
  by (simp add: model_defs example_defs)

subsection \<open>C8: null query parameters\<close>

text \<open>
  Claim C8: for a GET on \<open>/cache\<close> whose \<open>queryStringParameters\<close> is present and null, the
  GET handler raises AttributeError, and the router answers with 500 and the error
  \<open>Internal server error\<close>; the world is unchanged.
\<close>

theorem get_null_query_is_500:
  assumes "path ev = Some ''/cache''" and "httpMethod ev = Some ''GET''"
    and "queryStringParameters ev = QNull"
  shows "handle_get_request L ev w = (Inl AttributeError, w) \<and>
         handler L ev w = (error_response L 500 ''Internal server error'', w)"
  using assms
  by (simp add: handler_def route_def catch_all_def handle_get_request_def query_uuid_def)

text \<open>An instance.\<close>

theorem get_null_query_is_500_witness:
  "handler example_lib (get_event QNull) (example_world\<lparr>uuid_next := 7\<rparr>) =
     (error_response example_lib 500 ''Internal server error'', example_world\<lparr>uuid_next := 7\<rparr>)"
proof -
  have "path (get_event QNull) = Some ''/cache''" "httpMethod (get_event QNull) = Some ''GET''"
    "queryStringParameters (get_event QNull) = QNull"
    by (simp_all add: get_event_def)
  from get_null_query_is_500 [OF this] show ?thesis by simp
qed

subsection \<open>C9: a body that is not JSON\<close>

text \<open>
  Claim C9: for a POST on \<open>/cache\<close> whose body is a non-empty string on which
  \<open>json.loads\<close> raises (JSONDecodeError for a text that is not JSON), the exception
  leaves the POST handler, the router answers with 500 and the error
  \<open>Internal server error\<close>, and no counter is emitted.
\<close>

theorem post_malformed_json_is_500:
  assumes "path ev = Some ''/cache''" and "httpMethod ev = Some ''POST''"
    and "req_body ev = Some b" and "b \<noteq> []" and "json_loads L b = Inl e"
  shows "handle_post_request L ev w = (Inl e, w) \<and>
         handler L ev w = (error_response L 500 ''Internal server error'', w) \<and>
         metrics (snd (handler L ev w)) = metrics w"
  using assms
  by (simp add: handler_def route_def catch_all_def handle_post_request_def)

text \<open>An instance.\<close>

theorem post_malformed_json_is_500_witness:
  "json_loads example_lib ''invalid json'' = Inl JSONDecodeError \<and>
   handler example_lib (post_event ''invalid json'') example_world =
     (error_response example_lib 500 ''Internal server error'', example_world)"
proof -
  have ev: "path (post_event ''invalid json'') = Some ''/cache''"
    "httpMethod (post_event ''invalid json'') = Some ''POST''"
    "req_body (post_event ''invalid json'') = Some ''invalid json''" "''invalid json'' \<noteq> []"
    by (simp_all add: post_event_def)
  have loads: "json_loads example_lib ''invalid json'' = Inl JSONDecodeError"
    by (simp add: example_defs)
  from post_malformed_json_is_500 [OF ev loads] loads show ?thesis by simp
qed

subsection \<open>C10: a \<open>ttlseconds\<close> on which \<open>int\<close> raises TypeError\<close>

text \<open>
  Claim C10 has every POST item whose \<open>ttlseconds\<close> makes \<open>int\<close> raise TypeError answered
  with 500. Validation checks the \<open>type\<close> of an item before its \<open>ttlseconds\<close>: for the
  item below, with the type \<open>csv\<close> and a null \<open>ttlseconds\<close>, it returns \<open>False\<close> before
  \<open>int\<close> is called, and the answer is 400.
\<close>

theorem post_null_ttl_on_csv_item_is_400:
  \<open>json_loads example_lib ''{"puts": [{"type": "csv", "value": 1, "ttlseconds": null}]}'' =
      Inr (JObj [(''puts'', JArr [JObj [(''type'', JStr ''csv''), (''value'', JInt 1),
                                        (''ttlseconds'', JNull)]])]) \<and>
   py_int JNull = Inl TypeError \<and>
   handler example_lib
      (post_event ''{"puts": [{"type": "csv", "value": 1, "ttlseconds": null}]}'') example_world =
     (\<lparr>statusCode = 400, headers = None, body = ''{"error": "Invalid request body"}''\<rparr>,
      example_world\<lparr>metrics := [(''PostFail'', 1)]\<rparr>)\<close>
  by (simp add: model_defs example_defs)

text \<open>
  C10, amended: \<open>validate_post_ttlseconds\<close> catches ValueError only. When \<open>int\<close> raises
  TypeError on the \<open>ttlseconds\<close> of an item (null, a list or an object, by lemma
  \<open>py_int_TypeError\<close>), the exception leaves \<open>validate_post_ttlseconds\<close>; and for every
  POST item with such a \<open>ttlseconds\<close> whose check is reached (the items before it pass
  validation, the item has a \<open>type\<close> in the allowed set and a \<open>value\<close>) it leaves
  validation as well, and the router answers with 500 and the error
  \<open>Internal server error\<close> instead of 400.
\<close>

theorem ttl_type_error_escapes:
  assumes "py_int x = Inl TypeError"
    and "path ev = Some ''/cache''" and "httpMethod ev = Some ''POST''"
    and "req_body ev = Some b" and "b \<noteq> []" and "json_loads L b = Inr data"
    and "request_puts data = Inr (pre @ JObj d # post)"
    and "validate_post_puts pre = Inr True"
    and "map_of d ''type'' = Some (JStr t)" and "t \<in> set ALLOWED_TYPES"
    and "dict_has d ''value''" and "map_of d ''ttlseconds'' = Some x"
  shows "validate_post_ttlseconds x = Inl TypeError \<and>
         validate_post_body data = Inl TypeError \<and>
         handler L ev w = (error_response L 500 ''Internal server error'', w)"
proof -
  have t: "validate_post_ttlseconds x = Inl TypeError"
    using assms(1) by (rule validate_post_ttlseconds_TypeError)
  have "validate_post_puts (JObj d # post) = Inl TypeError"
    using t assms(9-12) by (simp add: dict_has_def dict_get_def in_allowed_types_def)
  then have "validate_post_puts (pre @ JObj d # post) = Inl TypeError"
    using validate_post_puts_append [OF assms(8)] by simp
  then have v: "validate_post_body data = Inl TypeError"
    using validate_post_body_puts [OF assms(7)] by simp
  have "handler L ev w = (error_response L 500 ''Internal server error'', w)"
    using handler_post [OF assms(2-6), of w] v by (simp add: catch_all_def)
  with t v show ?thesis by simp
qed

text \<open>An instance: \<open>ttlseconds\<close> null in the first item.\<close>

theorem ttl_type_error_escapes_witness:
  \<open>validate_post_ttlseconds JNull = Inl TypeError \<and>
   handler example_lib
     (post_event ''{"puts": [{"type": "json", "value": 1, "ttlseconds": null}, {"type": "csv", "value": 1}]}'')
     example_world =
     (error_response example_lib 500 ''Internal server error'', example_world)\<close>
proof -
  let ?b = \<open>''{"puts": [{"type": "json", "value": 1, "ttlseconds": null}, {"type": "csv", "value": 1}]}''\<close>
  let ?d = "[(''type'', JStr ''json''), (''value'', JInt 1), (''ttlseconds'', JNull)]"
  let ?post = "[JObj [(''type'', JStr ''csv''), (''value'', JInt 1)]]"
  let ?data = "JObj [(''puts'', JArr (JObj ?d # ?post))]"
  have x: "py_int JNull = Inl TypeError" by simp
  have ev: "path (post_event ?b) = Some ''/cache''" "httpMethod (post_event ?b) = Some ''POST''"
    "req_body (post_event ?b) = Some ?b" "?b \<noteq> []"
    by (simp_all add: post_event_def)
  have loads: "json_loads example_lib ?b = Inr ?data"
    by (simp add: example_defs)
  have puts: "request_puts ?data = Inr ([] @ JObj ?d # ?post)"
    by (simp add: model_defs)
  have pre: "validate_post_puts [] = Inr True" by simp
  have d: "map_of ?d ''type'' = Some (JStr ''json'')" "''json'' \<in> set ALLOWED_TYPES"
    "dict_has ?d ''value''" "map_of ?d ''ttlseconds'' = Some JNull"
    by (simp_all add: ALLOWED_TYPES_def dict_has_def)
  from ttl_type_error_escapes [OF x ev loads puts pre d] show ?thesis by simp
qed

end
